theory Spec2Isabelle
  imports Main
begin

section \<open>Calendar dates and their ISO-8601 text\<close>

text \<open>
  The router works with Python's \<^verbatim>\<open>datetime.date\<close>: a year, a month and a day that
  compare as the triple \<open>(year, month, day)\<close>. A \<^verbatim>\<open>date\<close> object only exists for a
  day of the proleptic Gregorian calendar with a year from 1 to 9999; \<open>valid_date\<close> is that
  condition. \<^verbatim>\<open>date.today()\<close> is a parameter \<open>today\<close> of every operation that reads it.
\<close>

record date =
  year :: nat
  month :: nat
  day :: nat

definition is_leap :: "nat \<Rightarrow> bool" where
  "is_leap y = (y mod 4 = 0 \<and> (y mod 100 \<noteq> 0 \<or> y mod 400 = 0))"

definition days_in_month :: "nat \<Rightarrow> nat \<Rightarrow> nat" where
  "days_in_month y m =
     (if m = 2 then (if is_leap y then 29 else 28)
      else if m = 4 \<or> m = 6 \<or> m = 9 \<or> m = 11 then 30 else 31)"

definition valid_date :: "date \<Rightarrow> bool" where
  "valid_date d =
     (1 \<le> year d \<and> year d \<le> 9999 \<and> 1 \<le> month d \<and> month d \<le> 12 \<and>
      1 \<le> day d \<and> day d \<le> days_in_month (year d) (month d))"

text \<open>\<^verbatim>\<open>a <= b\<close> and \<^verbatim>\<open>a < b\<close> on dates.\<close>

definition date_le :: "date \<Rightarrow> date \<Rightarrow> bool" where
  "date_le a b =
     (year a < year b \<or> (year a = year b \<and>
        (month a < month b \<or> (month a = month b \<and> day a \<le> day b))))"

definition date_lt :: "date \<Rightarrow> date \<Rightarrow> bool" where
  "date_lt a b =
     (year a < year b \<or> (year a = year b \<and>
        (month a < month b \<or> (month a = month b \<and> day a < day b))))"

text \<open>
  Strings are lists of characters, one \<open>char\<close> for each code point of the Python string
  (so the model covers the code points below 256). \<open>digit_char\<close> is the ASCII digit of a
  number below ten, \<open>digit_val\<close> reads one back.
\<close>

definition digit_char :: "nat \<Rightarrow> char" where
  "digit_char k = ''0123456789'' ! (k mod 10)"

definition digit_val :: "char \<Rightarrow> nat option" where
  "digit_val c =
     (let n = (of_char c :: nat) in if 48 \<le> n \<and> n \<le> 57 then Some (n - 48) else None)"

text \<open>
  \<open>zpad w n\<close> is \<^verbatim>\<open>"%0wd" % n\<close> for a number of at most \<open>w\<close> digits; \<open>isoformat\<close> is
  \<^verbatim>\<open>"%04d-%02d-%02d" % (year, month, day)\<close>, which is what \<^verbatim>\<open>date.isoformat()\<close> returns.
\<close>

primrec zpad :: "nat \<Rightarrow> nat \<Rightarrow> string" where
  "zpad 0 n = []"
| "zpad (Suc w) n = zpad w (n div 10) @ [digit_char (n mod 10)]"

definition isoformat :: "date \<Rightarrow> string" where
  "isoformat d =
     zpad 4 (year d) @ CHR ''-'' # zpad 2 (month d) @ CHR ''-'' # zpad 2 (day d)"

text \<open>
  \<open>digits_val\<close> reads a run of ASCII digits as a decimal number and fails on any other
  character. \<open>iso_date\<close> reads the text \<^verbatim>\<open>YYYY-MM-DD\<close> of a date, the form that
  \<open>isoformat\<close> writes: ten characters, the year in \<^verbatim>\<open>s[0:4]\<close>, a dash, the month in
  \<^verbatim>\<open>s[5:7]\<close>, a dash, the day in \<^verbatim>\<open>s[8:10]\<close>, and the three numbers must form a
  date.
\<close>

fun digits_val :: "nat \<Rightarrow> string \<Rightarrow> nat option" where
  "digits_val acc [] = Some acc"
| "digits_val acc (c # cs) =
     (case digit_val c of None \<Rightarrow> None | Some k \<Rightarrow> digits_val (10 * acc + k) cs)"

definition iso_date :: "string \<Rightarrow> date option" where
  "iso_date s =
     (if length s \<noteq> 10 then None
      else (case digits_val 0 (take 4 s) of
        None \<Rightarrow> None
      | Some y \<Rightarrow>
          (if s ! 4 \<noteq> CHR ''-'' then None
           else (case digits_val 0 (take 2 (drop 5 s)) of
             None \<Rightarrow> None
           | Some m \<Rightarrow>
               (if s ! 7 \<noteq> CHR ''-'' then None
                else (case digits_val 0 (drop 8 s) of
                  None \<Rightarrow> None
                | Some d \<Rightarrow>
                    (if valid_date \<lparr>year = y, month = m, day = d\<rparr>
                     then Some \<lparr>year = y, month = m, day = d\<rparr> else None)))))))"

text \<open>
  \<^verbatim>\<open>date.fromisoformat\<close>. Every version of Python reads the text \<^verbatim>\<open>YYYY-MM-DD\<close> of a
  date; from Python 3.11 on, further forms are read as well (\<^verbatim>\<open>YYYYMMDD\<close>, week dates
  such as \<^verbatim>\<open>2026-W45-2\<close>). What the version at hand makes of a string that is not the
  text \<^verbatim>\<open>YYYY-MM-DD\<close> of a date is the parameter \<open>forms\<close>, which every function
  that parses a stored date takes; \<open>iso_only\<close> is that of a Python before 3.11. \<open>None\<close>
  stands for the \<^verbatim>\<open>ValueError\<close> that Python raises.
\<close>

definition fromisoformat :: "(string \<Rightarrow> date option) \<Rightarrow> string \<Rightarrow> date option" where
  "fromisoformat forms s =
     (case iso_date s of Some d \<Rightarrow> Some d | None \<Rightarrow> forms s)"

definition iso_only :: "string \<Rightarrow> date option" where
  "iso_only s = None"

text \<open>
  The document store compares two strings byte by byte; on code points that is the
  lexicographic order, a proper prefix coming first.
\<close>

fun str_le :: "string \<Rightarrow> string \<Rightarrow> bool" where
  "str_le [] ys = True"
| "str_le (x # xs) [] = False"
| "str_le (x # xs) (y # ys) = ((of_char x :: nat) < of_char y \<or> (x = y \<and> str_le xs ys))"


section \<open>Documents, identifiers and errors\<close>

text \<open>
  A stored value is null, a string or an integer; values of other kinds are not
  modelled. A document is its \<^verbatim>\<open>_id\<close> and a dictionary of the other fields; a field
  that the document does not have is \<open>None\<close>.
\<close>

datatype bson = BNull | BStr string | BInt int

text \<open>
  \<^verbatim>\<open>bson.ObjectId\<close>: the bytes of an identifier. The driver generates identifiers of
  twelve bytes (\<open>valid_oid\<close>).

  \<open>ObjectId\<close> is the constructor applied to a string: a string of another length than
  24 raises \<^verbatim>\<open>InvalidId\<close> (\<open>None\<close>), and a string of length 24 is handed to
  \<^verbatim>\<open>bytes.fromhex\<close>, whose failure raises \<^verbatim>\<open>InvalidId\<close> too. \<open>fromhex\<close> reads two
  hexadecimal digits, in either case, for each byte and skips ASCII white space in
  front of a byte (not between its two digits). So 24 hexadecimal digits give twelve
  bytes, and a string of length 24 with white space between its bytes is accepted as
  well and gives fewer bytes.

  \<open>oid_str\<close> is \<^verbatim>\<open>str(oid)\<close>: two lower-case hexadecimal digits for each byte.
\<close>

type_synonym object_id = "nat list"

definition valid_oid :: "object_id \<Rightarrow> bool" where
  "valid_oid oid = (length oid = 12 \<and> list_all (\<lambda>b. b < 256) oid)"

definition hex_val :: "char \<Rightarrow> nat option" where
  "hex_val c =
     (let n = (of_char c :: nat) in
      if 48 \<le> n \<and> n \<le> 57 then Some (n - 48)
      else if 97 \<le> n \<and> n \<le> 102 then Some (n - 87)
      else if 65 \<le> n \<and> n \<le> 70 then Some (n - 55)
      else None)"

definition hex_char :: "nat \<Rightarrow> char" where
  "hex_char k = ''0123456789abcdef'' ! (k mod 16)"

definition is_ascii_space :: "char \<Rightarrow> bool" where
  "is_ascii_space c = (let n = (of_char c :: nat) in (9 \<le> n \<and> n \<le> 13) \<or> n = 32)"

fun fromhex :: "string \<Rightarrow> nat list option" where
  "fromhex [] = Some []"
| "fromhex [c] = (if is_ascii_space c then Some [] else None)"
| "fromhex (c # d # cs) =
     (if is_ascii_space c then fromhex (d # cs)
      else (case hex_val c of
              None \<Rightarrow> None
            | Some hi \<Rightarrow>
                (case hex_val d of
                   None \<Rightarrow> None
                 | Some lo \<Rightarrow>
                     (case fromhex cs of
                        None \<Rightarrow> None
                      | Some bs \<Rightarrow> Some ((16 * hi + lo) # bs)))))"

definition ObjectId :: "string \<Rightarrow> object_id option" where
  "ObjectId s = (if length s = 24 then fromhex s else None)"

definition oid_str :: "object_id \<Rightarrow> string" where
  "oid_str oid = concat (map (\<lambda>b. [hex_char (b div 16), hex_char (b mod 16)]) oid)"

record document =
  doc_id :: object_id
  doc_fields :: "string \<rightharpoonup> bson"

record teacher =
  teacher_id :: string

text \<open>
  The failures of a request: an \<^verbatim>\<open>HTTPException\<close> raised by the router with its status
  code and detail, the framework's answer to a payload that fails validation, and an
  exception that nothing catches (named by its class), which the framework answers
  with status 500.
\<close>

datatype error =
  HTTPException nat string
| RequestValidationError
| Uncaught string

fun status_code :: "error \<Rightarrow> nat" where
  "status_code (HTTPException c detail) = c"
| "status_code RequestValidationError = 422"
| "status_code (Uncaught cls) = 500"

section \<open>Payload and response models\<close>

record announcement_payload =
  title :: string
  message :: string
  start_date :: "date option"
  end_date :: date

record announcement_response =
  r_id :: string
  r_title :: string
  r_message :: string
  r_start_date :: "date option"
  r_end_date :: date

text \<open>
  The validator of \<^verbatim>\<open>end_date\<close>: \<^verbatim>\<open>if start and end < start: raise ValueError\<close>.
  \<open>False\<close> is the raise.
\<close>

definition validate_end_date :: "date \<Rightarrow> date option \<Rightarrow> bool" where
  "validate_end_date e start = (case start of None \<Rightarrow> True | Some s \<Rightarrow> \<not> date_lt e s)"

text \<open>
  Building an \<^verbatim>\<open>AnnouncementPayload\<close> from the fields of a request body: the length
  bounds of \<^verbatim>\<open>title\<close> and \<^verbatim>\<open>message\<close>, both dates being dates, and the validator. The
  framework turns every failure into the same 422 answer.
\<close>

definition AnnouncementPayload :: "announcement_payload \<Rightarrow> error + announcement_payload" where
  "AnnouncementPayload p =
     (if length (title p) < 1 \<or> 120 < length (title p) then Inl RequestValidationError
      else if length (message p) < 1 \<or> 800 < length (message p) then Inl RequestValidationError
      else if (case start_date p of None \<Rightarrow> False | Some s \<Rightarrow> \<not> valid_date s)
        then Inl RequestValidationError
      else if \<not> valid_date (end_date p) then Inl RequestValidationError
      else if \<not> validate_end_date (end_date p) (start_date p) then Inl RequestValidationError
      else Inr p)"

section \<open>Helpers\<close>

text \<open>
  Modelled from the spec: \<^verbatim>\<open>teachers_collection.find_one({"_id": username})\<close>, the
  lookup of a username in the teacher directory (an existence check by key).
\<close>

definition find_teacher :: "teacher list \<Rightarrow> string \<Rightarrow> teacher option" where
  "find_teacher teachers_collection username =
     find (\<lambda>t. teacher_id t = username) teachers_collection"

definition require_teacher :: "teacher list \<Rightarrow> string option \<Rightarrow> error + teacher" where
  "require_teacher teachers_collection username =
     (case username of
        None \<Rightarrow> Inl (HTTPException 401 ''Authentication required for this action'')
      | Some u \<Rightarrow>
          (if u = [] then Inl (HTTPException 401 ''Authentication required for this action'')
           else (case find_teacher teachers_collection u of
                   None \<Rightarrow> Inl (HTTPException 401 ''Invalid teacher credentials'')
                 | Some t \<Rightarrow> Inr t)))"

text \<open>\<^verbatim>\<open>not value\<close> for the value of a field (\<^verbatim>\<open>doc.get\<close> gives \<^verbatim>\<open>None\<close> for a missing one).\<close>

fun falsy :: "bson option \<Rightarrow> bool" where
  "falsy None = True"
| "falsy (Some BNull) = True"
| "falsy (Some (BStr s)) = (s = [])"
| "falsy (Some (BInt n)) = (n = 0)"

text \<open>
  \<^verbatim>\<open>date.fromisoformat\<close> of a value that is not a string raises \<^verbatim>\<open>TypeError\<close>, which the
  \<^verbatim>\<open>except ValueError\<close> does not catch.
\<close>

definition parse_optional_date ::
  "(string \<Rightarrow> date option) \<Rightarrow> bson option \<Rightarrow> error + date option" where
  "parse_optional_date forms v =
     (if falsy v then Inr None
      else (case v of
              Some (BStr s) \<Rightarrow> Inr (fromisoformat forms s)
            | _ \<Rightarrow> Inl (Uncaught ''TypeError'')))"

text \<open>\<^verbatim>\<open>str.strip()\<close>: the white space of Python among the code points below 256.\<close>

definition is_space :: "char \<Rightarrow> bool" where
  "is_space c =
     (let n = (of_char c :: nat) in (9 \<le> n \<and> n \<le> 13) \<or> (28 \<le> n \<and> n \<le> 32) \<or> n = 133 \<or> n = 160)"

definition strip :: "string \<Rightarrow> string" where
  "strip s = rev (dropWhile is_space (rev (dropWhile is_space s)))"

definition serialize_payload :: "announcement_payload \<Rightarrow> (string \<rightharpoonup> bson)" where
  "serialize_payload payload =
     [''title'' \<mapsto> BStr (strip (title payload)),
      ''message'' \<mapsto> BStr (strip (message payload)),
      ''start_date'' \<mapsto> (case start_date payload of None \<Rightarrow> BNull | Some d \<Rightarrow> BStr (isoformat d)),
      ''end_date'' \<mapsto> BStr (isoformat (end_date payload))]"

text \<open>
  A \<^verbatim>\<open>str\<close> field of the response model: \<^verbatim>\<open>doc.get(key, "")\<close> gives the empty string for
  a missing key, and a value that is not a string fails the model's validation.
\<close>

fun str_field :: "bson option \<Rightarrow> error + string" where
  "str_field None = Inr []"
| "str_field (Some (BStr s)) = Inr s"
| "str_field (Some v) = Inl (Uncaught ''ValidationError'')"

definition doc_to_response ::
  "(string \<Rightarrow> date option) \<Rightarrow> date \<Rightarrow> document \<Rightarrow> error + announcement_response" where
  "doc_to_response forms today doc =
     (case parse_optional_date forms (doc_fields doc ''start_date'') of
        Inl e \<Rightarrow> Inl e
      | Inr sd \<Rightarrow>
          (case parse_optional_date forms (doc_fields doc ''end_date'') of
             Inl e \<Rightarrow> Inl e
           | Inr ed \<Rightarrow>
               (case str_field (doc_fields doc ''title'') of
                  Inl e \<Rightarrow> Inl e
                | Inr t \<Rightarrow>
                    (case str_field (doc_fields doc ''message'') of
                       Inl e \<Rightarrow> Inl e
                     | Inr m \<Rightarrow>
                         Inr \<lparr>r_id = oid_str (doc_id doc), r_title = t, r_message = m,
                              r_start_date = sd,
                              r_end_date = (case ed of None \<Rightarrow> today | Some d \<Rightarrow> d)\<rparr>))))"


section \<open>The collection and its queries\<close>

text \<open>
  Modelled from the spec: the announcements collection and the teacher directory. The
  router imports both from the repository's database module, which is not among the
  sources; the specification describes them as a document store with insert, find with
  filter and sort, find-and-modify with return and delete-one, keyed by an opaque
  identifier, and a teacher directory keyed by username. A collection is the list of its
  documents in the order of insertion, and both are parameters of the routes.

  The filter documents that the router builds: a condition on a field is one of
  \<^verbatim>\<open>{"$gte": s}\<close>, \<^verbatim>\<open>{"$lte": s}\<close> with a string \<open>s\<close>, \<^verbatim>\<open>{"$exists": b}\<close>, or
  the literal \<^verbatim>\<open>None\<close>. A filter is a list of clauses that must all hold; a clause is a
  condition on a named field or \<^verbatim>\<open>"$or"\<close> over a list of filters.

  The store compares a string only with strings: a field that is missing, null or a
  number satisfies neither \<^verbatim>\<open>$gte\<close> nor \<^verbatim>\<open>$lte\<close> against a string. The literal
  \<^verbatim>\<open>None\<close> matches a field that is null or missing.
\<close>

datatype condition = Gte string | Lte string | Exists bool | IsNull

datatype clause = Field string condition | Or "clause list list"

type_synonym query = "clause list"

fun cond_holds :: "condition \<Rightarrow> bson option \<Rightarrow> bool" where
  "cond_holds (Gte s) v = (case v of Some (BStr t) \<Rightarrow> str_le s t | _ \<Rightarrow> False)"
| "cond_holds (Lte s) v = (case v of Some (BStr t) \<Rightarrow> str_le t s | _ \<Rightarrow> False)"
| "cond_holds (Exists b) v = ((v \<noteq> None) = b)"
| "cond_holds IsNull v = (v = None \<or> v = Some BNull)"

fun clause_holds :: "document \<Rightarrow> clause \<Rightarrow> bool" where
  "clause_holds doc (Field k c) = cond_holds c (doc_fields doc k)"
| "clause_holds doc (Or qs) = list_ex (\<lambda>q. list_all (clause_holds doc) q) qs"

definition matches :: "query \<Rightarrow> document \<Rightarrow> bool" where
  "matches q doc = list_all (clause_holds doc) q"

text \<open>
  The order of \<^verbatim>\<open>sort("end_date", 1)\<close>: a missing or null value first, then numbers,
  then strings; numbers by value and strings by \<open>str_le\<close>. Documents with equal keys
  keep the order of the collection.
\<close>

fun bson_rank :: "bson option \<Rightarrow> nat" where
  "bson_rank None = 0"
| "bson_rank (Some BNull) = 0"
| "bson_rank (Some (BInt n)) = 1"
| "bson_rank (Some (BStr s)) = 2"

fun bson_le :: "bson option \<Rightarrow> bson option \<Rightarrow> bool" where
  "bson_le (Some (BInt a)) (Some (BInt b)) = (a \<le> b)"
| "bson_le (Some (BStr a)) (Some (BStr b)) = str_le a b"
| "bson_le a b = (bson_rank a \<le> bson_rank b)"

fun insort_doc :: "string \<Rightarrow> document \<Rightarrow> document list \<Rightarrow> document list" where
  "insort_doc k d [] = [d]"
| "insort_doc k d (e # es) =
     (if bson_le (doc_fields d k) (doc_fields e k) then d # e # es else e # insort_doc k d es)"

definition sort_docs :: "string \<Rightarrow> document list \<Rightarrow> document list" where
  "sort_docs k ds = foldr (insort_doc k) ds []"

definition find_docs :: "document list \<Rightarrow> query \<Rightarrow> document list" where
  "find_docs coll q = filter (matches q) coll"

text \<open>
  A lookup by \<^verbatim>\<open>_id\<close> compares identifiers byte for byte: an identifier of fewer than
  twelve bytes, which the identifier constructor can give, finds no document whose
  identifier has twelve.
\<close>

definition find_one :: "document list \<Rightarrow> object_id \<Rightarrow> document option" where
  "find_one coll oid = find (\<lambda>d. doc_id d = oid) coll"

text \<open>
  \<^verbatim>\<open>insert_one\<close> of a document without \<^verbatim>\<open>_id\<close>: the driver gives it a new identifier
  \<open>new_id\<close>, and the store refuses an identifier that it already holds
  (\<^verbatim>\<open>DuplicateKeyError\<close>).
\<close>

definition insert_one ::
  "document list \<Rightarrow> object_id \<Rightarrow> (string \<rightharpoonup> bson) \<Rightarrow> error + document list" where
  "insert_one coll new_id fvals =
     (if new_id \<in> doc_id ` set coll then Inl (Uncaught ''DuplicateKeyError'')
      else Inr (coll @ [\<lparr>doc_id = new_id, doc_fields = fvals\<rparr>]))"

text \<open>
  \<^verbatim>\<open>find_one_and_update({"_id": oid}, {"$set": fields}, return_document=AFTER)\<close>: the
  first document with that identifier gets the fields and is returned as updated.
\<close>

fun find_one_and_update ::
  "document list \<Rightarrow> object_id \<Rightarrow> (string \<rightharpoonup> bson) \<Rightarrow> document option \<times> document list" where
  "find_one_and_update [] oid fvals = (None, [])"
| "find_one_and_update (d # ds) oid fvals =
     (if doc_id d = oid
      then (Some (d\<lparr>doc_fields := doc_fields d ++ fvals\<rparr>),
            d\<lparr>doc_fields := doc_fields d ++ fvals\<rparr> # ds)
      else (case find_one_and_update ds oid fvals of (r, ds') \<Rightarrow> (r, d # ds')))"

text \<open>\<^verbatim>\<open>delete_one({"_id": oid})\<close>: the count of deleted documents and the collection left.\<close>

fun delete_one :: "document list \<Rightarrow> object_id \<Rightarrow> nat \<times> document list" where
  "delete_one [] oid = (0, [])"
| "delete_one (d # ds) oid =
     (if doc_id d = oid then (1, ds)
      else (case delete_one ds oid of (n, ds') \<Rightarrow> (n, d # ds')))"

section \<open>Routes\<close>

text \<open>
  Each route takes the collections it reads and returns its answer together with the
  announcements collection it leaves.
\<close>

definition list_query :: "date \<Rightarrow> bool \<Rightarrow> bool \<Rightarrow> query" where
  "list_query today include_expired include_future =
     (if \<not> include_expired
      then Field ''end_date'' (Gte (isoformat today)) #
           (if \<not> include_future
            then [Or [[Field ''start_date'' (Exists False)],
                      [Field ''start_date'' IsNull],
                      [Field ''start_date'' (Lte (isoformat today))]]]
            else [])
      else [])"

fun map_result :: "('a \<Rightarrow> error + 'b) \<Rightarrow> 'a list \<Rightarrow> error + 'b list" where
  "map_result f [] = Inr []"
| "map_result f (x # xs) =
     (case f x of
        Inl e \<Rightarrow> Inl e
      | Inr y \<Rightarrow> (case map_result f xs of Inl e \<Rightarrow> Inl e | Inr ys \<Rightarrow> Inr (y # ys)))"

definition list_announcements ::
  "(string \<Rightarrow> date option) \<Rightarrow> date \<Rightarrow> document list \<Rightarrow> bool \<Rightarrow> bool \<Rightarrow>
   error + announcement_response list" where
  "list_announcements forms today coll include_expired include_future =
     map_result (doc_to_response forms today)
       (sort_docs ''end_date'' (find_docs coll (list_query today include_expired include_future)))"

definition create_announcement ::
  "(string \<Rightarrow> date option) \<Rightarrow> date \<Rightarrow> teacher list \<Rightarrow> document list \<Rightarrow> object_id \<Rightarrow> announcement_payload \<Rightarrow>
   string option \<Rightarrow> (error + announcement_response) \<times> document list" where
  "create_announcement forms today teachers coll new_id payload teacher_username =
     (case require_teacher teachers teacher_username of
        Inl e \<Rightarrow> (Inl e, coll)
      | Inr t \<Rightarrow>
          (case insert_one coll new_id (serialize_payload payload) of
             Inl e \<Rightarrow> (Inl e, coll)
           | Inr coll' \<Rightarrow>
               (case find_one coll' new_id of
                  None \<Rightarrow> (Inl (HTTPException 500 ''Failed to create announcement''), coll')
                | Some created \<Rightarrow> (doc_to_response forms today created, coll'))))"

definition update_announcement ::
  "(string \<Rightarrow> date option) \<Rightarrow> date \<Rightarrow> teacher list \<Rightarrow> document list \<Rightarrow> string \<Rightarrow> announcement_payload \<Rightarrow>
   string option \<Rightarrow> (error + announcement_response) \<times> document list" where
  "update_announcement forms today teachers coll announcement_id payload
       teacher_username =
     (case require_teacher teachers teacher_username of
        Inl e \<Rightarrow> (Inl e, coll)
      | Inr t \<Rightarrow>
          (case ObjectId announcement_id of
             None \<Rightarrow> (Inl (HTTPException 404 ''Announcement not found''), coll)
           | Some object_id \<Rightarrow>
               (case find_one_and_update coll object_id (serialize_payload payload) of
                  (None, coll') \<Rightarrow> (Inl (HTTPException 404 ''Announcement not found''), coll')
                | (Some result, coll') \<Rightarrow>
                    (doc_to_response forms today result, coll'))))"

definition delete_announcement ::
  "teacher list \<Rightarrow> document list \<Rightarrow> string \<Rightarrow> string option \<Rightarrow>
   (error + (string \<times> string) list) \<times> document list" where
  "delete_announcement teachers coll announcement_id teacher_username =
     (case require_teacher teachers teacher_username of
        Inl e \<Rightarrow> (Inl e, coll)
      | Inr t \<Rightarrow>
          (case ObjectId announcement_id of
             None \<Rightarrow> (Inl (HTTPException 404 ''Announcement not found''), coll)
           | Some object_id \<Rightarrow>
               (case delete_one coll object_id of
                  (deleted_count, coll') \<Rightarrow>
                    (if deleted_count = 0
                     then (Inl (HTTPException 404 ''Announcement not found''), coll')
                     else (Inr [(''message'', ''Announcement deleted'')], coll')))))"

text \<open>
  A request to \<^verbatim>\<open>POST /announcements\<close> or \<^verbatim>\<open>PUT /announcements/{id}\<close>: the framework
  builds the payload model from the body first and calls the route function only when
  that succeeds.
\<close>

definition post_request ::
  "(string \<Rightarrow> date option) \<Rightarrow> date \<Rightarrow> teacher list \<Rightarrow> document list \<Rightarrow> object_id \<Rightarrow> announcement_payload \<Rightarrow>
   string option \<Rightarrow> (error + announcement_response) \<times> document list" where
  "post_request forms today teachers coll new_id body teacher_username =
     (case AnnouncementPayload body of
        Inl e \<Rightarrow> (Inl e, coll)
      | Inr payload \<Rightarrow>
          create_announcement forms today teachers coll new_id payload teacher_username)"

definition put_request ::
  "(string \<Rightarrow> date option) \<Rightarrow> date \<Rightarrow> teacher list \<Rightarrow> document list \<Rightarrow> string \<Rightarrow> announcement_payload \<Rightarrow>
   string option \<Rightarrow> (error + announcement_response) \<times> document list" where
  "put_request forms today teachers coll announcement_id body teacher_username =
     (case AnnouncementPayload body of
        Inl e \<Rightarrow> (Inl e, coll)
      | Inr payload \<Rightarrow>
          update_announcement forms today teachers coll announcement_id payload
            teacher_username)"

section \<open>Stored announcements as the data model describes them\<close>

text \<open>
  The shapes of a stored field that the conversion to a response accepts: a text field
  that is missing or a string, and a date field that is falsy or a string.
\<close>

fun text_shaped :: "bson option \<Rightarrow> bool" where
  "text_shaped None = True"
| "text_shaped (Some (BStr s)) = True"
| "text_shaped (Some v) = False"

fun date_shaped :: "bson option \<Rightarrow> bool" where
  "date_shaped (Some (BStr s)) = True"
| "date_shaped v = falsy v"

definition readable :: "document \<Rightarrow> bool" where
  "readable doc =
     (text_shaped (doc_fields doc ''title'') \<and> text_shaped (doc_fields doc ''message'') \<and>
      date_shaped (doc_fields doc ''start_date'') \<and> date_shaped (doc_fields doc ''end_date''))"

text \<open>
  What the conversion reads in a date field of a shape it accepts, and a date field in
  which it reads no date: one that is missing, null, or a string (the empty one among
  them) that \<^verbatim>\<open>date.fromisoformat\<close> rejects.
\<close>

fun parsed_date :: "(string \<Rightarrow> date option) \<Rightarrow> bson option \<Rightarrow> date option" where
  "parsed_date forms (Some (BStr s)) = (if s = [] then None else fromisoformat forms s)"
| "parsed_date forms v = None"

fun holds_no_date :: "(string \<Rightarrow> date option) \<Rightarrow> bson option \<Rightarrow> bool" where
  "holds_no_date forms None = True"
| "holds_no_date forms (Some BNull) = True"
| "holds_no_date forms (Some (BStr s)) = (s = [] \<or> fromisoformat forms s = None)"
| "holds_no_date forms (Some (BInt n)) = False"

text \<open>
  The dates that a stored document carries, and the announcement of the data model: a
  required end date and an optional start date, both persisted as ISO strings of the
  form \<^verbatim>\<open>YYYY-MM-DD\<close>.
\<close>

fun stored_date :: "bson option \<Rightarrow> date option" where
  "stored_date (Some (BStr s)) = iso_date s"
| "stored_date v = None"

definition stored_end :: "document \<Rightarrow> date option" where
  "stored_end doc = stored_date (doc_fields doc ''end_date'')"

definition stored_start :: "document \<Rightarrow> date option" where
  "stored_start doc = stored_date (doc_fields doc ''start_date'')"

definition well_formed :: "document \<Rightarrow> bool" where
  "well_formed doc =
     (text_shaped (doc_fields doc ''title'') \<and> text_shaped (doc_fields doc ''message'') \<and>
      stored_end doc \<noteq> None \<and>
      (doc_fields doc ''start_date'' = None \<or> doc_fields doc ''start_date'' = Some BNull \<or>
       stored_start doc \<noteq> None))"

text \<open>
  The two selections in the words of the specification: an announcement that has not
  expired on a day, and one that is current on it (not expired, and started or without
  a start date).
\<close>

definition unexpired_on :: "date \<Rightarrow> document \<Rightarrow> bool" where
  "unexpired_on today doc =
     (case stored_end doc of None \<Rightarrow> False | Some e \<Rightarrow> date_le today e)"

definition current_on :: "date \<Rightarrow> document \<Rightarrow> bool" where
  "current_on today doc =
     (unexpired_on today doc \<and>
      (case stored_start doc of None \<Rightarrow> True | Some s \<Rightarrow> date_le s today))"

text \<open>
  An identifier string that names no stored document: it is not a valid identifier, or
  no document of the collection has it.
\<close>

definition names_no_document :: "document list \<Rightarrow> string \<Rightarrow> bool" where
  "names_no_document coll announcement_id =
     (case ObjectId announcement_id of None \<Rightarrow> True | Some oid \<Rightarrow> oid \<notin> doc_id ` set coll)"

section \<open>Example data\<close>

text \<open>
  A day, a teacher directory and a few stored documents on which the theorems below are
  instantiated.
\<close>

definition ex_today :: date where
  "ex_today = \<lparr>year = 2026, month = 11, day = 3\<rparr>"

definition ex_teachers :: "teacher list" where
  "ex_teachers = [\<lparr>teacher_id = ''mrodriguez''\<rparr>]"

definition ex_payload :: announcement_payload where
  "ex_payload =
     \<lparr>title = ''Exam'', message = ''Midterm Friday'', start_date = None,
      end_date = \<lparr>year = 2099, month = 1, day = 1\<rparr>\<rparr>"

definition ex_oid :: object_id where
  "ex_oid = [101, 10, 27, 44, 61, 78, 95, 0, 0, 0, 0, 1]"

definition ex_backwards :: announcement_payload where
  "ex_backwards =
     \<lparr>title = ''Exam'', message = ''Midterm Friday'',
      start_date = Some \<lparr>year = 2026, month = 12, day = 1\<rparr>,
      end_date = \<lparr>year = 2026, month = 11, day = 30\<rparr>\<rparr>"

definition ex_blank :: announcement_payload where
  "ex_blank =
     \<lparr>title = '' '', message = ''Midterm Friday'', start_date = None,
      end_date = \<lparr>year = 2099, month = 1, day = 1\<rparr>\<rparr>"

definition ex_malformed :: document where
  "ex_malformed =
     \<lparr>doc_id = ex_oid,
      doc_fields = [''title'' \<mapsto> BStr ''Fair'', ''message'' \<mapsto> BStr ''Science fair'',
                    ''start_date'' \<mapsto> BStr ''2026-13-01'', ''end_date'' \<mapsto> BStr ''soon'']\<rparr>"

definition ex_numeric :: document where
  "ex_numeric =
     \<lparr>doc_id = ex_oid,
      doc_fields = [''title'' \<mapsto> BStr ''Fair'', ''message'' \<mapsto> BStr ''Science fair'',
                    ''start_date'' \<mapsto> BInt 20261201]\<rparr>"

definition ex_expired :: document where
  "ex_expired =
     \<lparr>doc_id = [101, 10, 27, 44, 61, 78, 95, 0, 0, 0, 0, 2],
      doc_fields = [''title'' \<mapsto> BStr ''Picture day'', ''message'' \<mapsto> BStr ''Bring a smile'',
                    ''start_date'' \<mapsto> BNull, ''end_date'' \<mapsto> BStr ''2026-10-31'']\<rparr>"

definition ex_current :: document where
  "ex_current =
     \<lparr>doc_id = [101, 10, 27, 44, 61, 78, 95, 0, 0, 0, 0, 3],
      doc_fields = [''title'' \<mapsto> BStr ''Exam'', ''message'' \<mapsto> BStr ''Midterm Friday'',
                    ''start_date'' \<mapsto> BStr ''2026-10-01'', ''end_date'' \<mapsto> BStr ''2026-12-01'']\<rparr>"

definition ex_future :: document where
  "ex_future =
     \<lparr>doc_id = [101, 10, 27, 44, 61, 78, 95, 0, 0, 0, 0, 4],
      doc_fields = [''title'' \<mapsto> BStr ''Concert'', ''message'' \<mapsto> BStr ''Winter concert'',
                    ''start_date'' \<mapsto> BStr ''2026-12-01'', ''end_date'' \<mapsto> BStr ''2026-12-24'']\<rparr>"

definition ex_coll :: "document list" where
  "ex_coll = [ex_expired, ex_current, ex_future]"

section \<open>Dates as text: reading back and ordering\<close>

lemma length_zpad [simp]: "length (zpad w n) = w"
  by (induction w arbitrary: n) auto

lemma of_char_digit_char: "k < 10 \<Longrightarrow> of_char (digit_char k) = 48 + k"
proof -
  assume "k < 10"
  then have "k \<in> {0, 1, 2, 3, 4, 5, 6, 7, 8, 9}" by auto
  then show ?thesis by (auto simp: digit_char_def)
qed

lemma digit_val_digit_char: "k < 10 \<Longrightarrow> digit_val (digit_char k) = Some k"
  by (simp add: digit_val_def of_char_digit_char)

lemma digit_char_digit_val:
  assumes "digit_val c = Some k"
  shows "digit_char k = c" and "k < 10"
proof -
  from assms have k: "of_char c = 48 + k" "k < 10"
    by (auto simp: digit_val_def Let_def split: if_splits)
  then show "k < 10" by simp
  have "of_char (digit_char k) = (of_char c :: nat)"
    using k by (simp add: of_char_digit_char)
  then show "digit_char k = c" by simp
qed

lemma digits_val_snoc:
  "digits_val acc (xs @ [c]) =
     (case digits_val acc xs of None \<Rightarrow> None
      | Some v \<Rightarrow> (case digit_val c of None \<Rightarrow> None | Some k \<Rightarrow> Some (10 * v + k)))"
  by (induction xs arbitrary: acc) (auto split: option.splits)

lemma digits_val_zpad: "digits_val 0 (zpad w n) = Some (n mod 10 ^ w)"
proof (induction w arbitrary: n)
  case 0
  show ?case by simp
next
  case (Suc w)
  have "n mod (10 * 10 ^ w) = 10 * (n div 10 mod 10 ^ w) + n mod 10"
    by (rule mod_mult2_eq)
  then show ?case
    by (simp add: digits_val_snoc Suc digit_val_digit_char)
qed

lemma zpad_digits_val:
  "digits_val 0 xs = Some n \<Longrightarrow> zpad (length xs) n = xs \<and> n < 10 ^ length xs"
proof (induction xs arbitrary: n rule: rev_induct)
  case Nil
  then show ?case by simp
next
  case (snoc c xs)
  from snoc.prems obtain v k where v: "digits_val 0 xs = Some v" and k: "digit_val c = Some k"
    and n: "n = 10 * v + k"
    by (auto simp: digits_val_snoc split: option.splits)
  from snoc.IH [OF v] have ih: "zpad (length xs) v = xs" "v < 10 ^ length xs" by auto
  from digit_char_digit_val [OF k] have kc: "digit_char k = c" "k < 10" by auto
  have "n div 10 = v" "n mod 10 = k" using n kc by auto
  moreover have "n < 10 * 10 ^ length xs" using n kc ih by auto
  ultimately show ?case using ih kc by simp
qed

lemma str_le_append:
  "length xs = length ys \<Longrightarrow>
   str_le (xs @ us) (ys @ vs) = (if xs = ys then str_le us vs else str_le xs ys)"
  by (induction xs ys rule: list_induct2) auto

lemma str_le_refl [simp]: "str_le xs xs"
  by (induction xs) auto

lemma zpad_order:
  "n < 10 ^ w \<Longrightarrow> m < 10 ^ w \<Longrightarrow>
   (zpad w n = zpad w m \<longleftrightarrow> n = m) \<and> (str_le (zpad w n) (zpad w m) \<longleftrightarrow> n \<le> m)"
proof (induction w arbitrary: n m)
  case 0
  then show ?case by simp
next
  case (Suc w)
  have b: "n div 10 < 10 ^ w" "m div 10 < 10 ^ w"
    using Suc.prems by auto
  note ih = Suc.IH [OF b]
  have dn: "n mod 10 < 10" "m mod 10 < 10" by auto
  have dc: "digit_char (n mod 10) = digit_char (m mod 10) \<longleftrightarrow> n mod 10 = m mod 10"
  proof
    assume "digit_char (n mod 10) = digit_char (m mod 10)"
    then have "(of_char (digit_char (n mod 10)) :: nat) = of_char (digit_char (m mod 10))"
      by simp
    then show "n mod 10 = m mod 10" by (simp add: of_char_digit_char)
  qed simp
  define a r b s where "a = n div 10" and "r = n mod 10" and "b = m div 10" and "s = m mod 10"
  have nm: "n = 10 * a + r" "m = 10 * b + s" "r < 10" "s < 10"
    by (simp_all add: a_def r_def b_def s_def)
  have "n = m \<longleftrightarrow> a = b \<and> r = s"
    using nm by arith
  then have e1: "n = m \<longleftrightarrow> n div 10 = m div 10 \<and> n mod 10 = m mod 10"
    by (simp only: a_def r_def b_def s_def)
  have "n \<le> m \<longleftrightarrow> a < b \<or> (a = b \<and> r \<le> s)"
    using nm by arith
  then have e2: "n \<le> m \<longleftrightarrow> n div 10 < m div 10 \<or> (n div 10 = m div 10 \<and> n mod 10 \<le> m mod 10)"
    by (simp only: a_def r_def b_def s_def)
  have eq: "zpad (Suc w) n = zpad (Suc w) m \<longleftrightarrow> n = m"
    using ih dc e1 by auto
  have "str_le (zpad (Suc w) n) (zpad (Suc w) m) \<longleftrightarrow> n \<le> m"
    using ih dc e2 by (auto simp: str_le_append of_char_digit_char)
  with eq show ?case by blast
qed


lemma valid_date_bounds:
  "valid_date d \<Longrightarrow> year d < 10000 \<and> month d < 100 \<and> day d < 100"
  by (auto simp: valid_date_def days_in_month_def split: if_splits)

lemma iso_date_isoformat:
  assumes "valid_date d"
  shows "iso_date (isoformat d) = Some d"
proof -
  from valid_date_bounds [OF assms]
  have b: "year d mod 10000 = year d" "month d mod 100 = month d" "day d mod 100 = day d"
    by simp_all
  have l: "length (isoformat d) = 10"
    by (simp add: isoformat_def)
  have t4: "take 4 (isoformat d) = zpad 4 (year d)"
    by (simp add: isoformat_def)
  have n4: "isoformat d ! 4 = CHR ''-''"
    by (simp add: isoformat_def nth_append)
  have d5: "drop 5 (isoformat d) = zpad 2 (month d) @ CHR ''-'' # zpad 2 (day d)"
    by (simp add: isoformat_def)
  have n7: "isoformat d ! 7 = CHR ''-''"
    by (simp add: isoformat_def nth_append nth_Cons')
  have d8: "drop 8 (isoformat d) = zpad 2 (day d)"
    by (simp add: isoformat_def)
  have r: "\<lparr>year = year d, month = month d, day = day d\<rparr> = d"
    by simp
  show ?thesis
    unfolding iso_date_def l t4 n4 d5 n7 d8
    using assms by (simp add: digits_val_zpad b r)
qed

lemma isoformat_iso_date:
  assumes "iso_date s = Some d"
  shows "isoformat d = s" and "valid_date d"
proof -
  from assms have l: "length s = 10"
    by (auto simp: iso_date_def split: if_splits)
  from assms l obtain y m dd where
    y: "digits_val 0 (take 4 s) = Some y" and s4: "s ! 4 = CHR ''-''" and
    m: "digits_val 0 (take 2 (drop 5 s)) = Some m" and s7: "s ! 7 = CHR ''-''" and
    dd: "digits_val 0 (drop 8 s) = Some dd" and
    v: "valid_date \<lparr>year = y, month = m, day = dd\<rparr>" and
    d: "d = \<lparr>year = y, month = m, day = dd\<rparr>"
    by (auto simp: iso_date_def split: if_splits option.splits)
  show "valid_date d" using v d by simp
  from zpad_digits_val [OF y] l have zy: "zpad 4 y = take 4 s" by simp
  from zpad_digits_val [OF m] l have zm: "zpad 2 m = take 2 (drop 5 s)" by simp
  from zpad_digits_val [OF dd] l have zd: "zpad 2 dd = drop 8 s" by simp
  have "s = take 4 s @ s ! 4 # drop 5 s"
    using id_take_nth_drop [of 4 s] l by simp
  moreover have "drop 5 s = take 2 (drop 5 s) @ s ! 7 # drop 8 s"
    using id_take_nth_drop [of 2 "drop 5 s"] l by simp
  ultimately have "s = take 4 s @ CHR ''-'' # take 2 (drop 5 s) @ CHR ''-'' # drop 8 s"
    using s4 s7 by simp
  then show "isoformat d = s"
    unfolding isoformat_def d using zy zm zd by simp
qed

lemma isoformat_le:
  assumes "valid_date a" and "valid_date b"
  shows "str_le (isoformat a) (isoformat b) = date_le a b"
proof -
  note ba = valid_date_bounds [OF assms(1)] and bb = valid_date_bounds [OF assms(2)]
  have y: "(zpad 4 (year a) = zpad 4 (year b)) = (year a = year b)"
       "str_le (zpad 4 (year a)) (zpad 4 (year b)) = (year a \<le> year b)"
    using zpad_order [of "year a" 4 "year b"] ba bb by simp_all
  have m: "(zpad 2 (month a) = zpad 2 (month b)) = (month a = month b)"
       "str_le (zpad 2 (month a)) (zpad 2 (month b)) = (month a \<le> month b)"
    using zpad_order [of "month a" 2 "month b"] ba bb by simp_all
  have d: "str_le (zpad 2 (day a)) (zpad 2 (day b)) = (day a \<le> day b)"
    using zpad_order [of "day a" 2 "day b"] ba bb by simp_all
  have "str_le (isoformat a) (isoformat b) =
        (if year a = year b
         then (if month a = month b then day a \<le> day b else month a \<le> month b)
         else year a \<le> year b)"
    unfolding isoformat_def
    by (simp only: str_le_append length_zpad y m d str_le.simps append_Cons refl simp_thms
        nat_less_le if_True if_False split: if_splits)
  then show ?thesis
    by (auto simp: date_le_def)
qed

lemma fromisoformat_iso: "iso_date s = Some d \<Longrightarrow> fromisoformat forms s = Some d"
  by (simp add: fromisoformat_def)

lemma fromisoformat_isoformat: "valid_date d \<Longrightarrow> fromisoformat forms (isoformat d) = Some d"
  by (simp add: fromisoformat_iso iso_date_isoformat)

lemma iso_date_empty: "iso_date [] = None"
  by (simp add: iso_date_def)

section \<open>Authentication\<close>

lemma require_teacher_missing:
  "teacher_username = None \<or> teacher_username = Some [] \<Longrightarrow>
   require_teacher teachers teacher_username =
     Inl (HTTPException 401 ''Authentication required for this action'')"
  by (auto simp: require_teacher_def)

lemma require_teacher_unknown:
  "u \<noteq> [] \<Longrightarrow> find_teacher teachers u = None \<Longrightarrow>
   require_teacher teachers (Some u) = Inl (HTTPException 401 ''Invalid teacher credentials'')"
  by (simp add: require_teacher_def)

text \<open>
  C2. A call of create, update or delete without a teacher identity (none, or an empty
  one) fails with status 401 and the detail of a missing authentication; a call with an
  identity that the teacher directory does not know fails with status 401 and the detail
  of invalid credentials. In both cases the announcements collection is returned as it
  was.
\<close>

theorem mutations_require_teacher:
  "(teacher_username = None \<or> teacher_username = Some [] \<longrightarrow>
      create_announcement forms today teachers coll new_id payload teacher_username =
        (Inl (HTTPException 401 ''Authentication required for this action''), coll) \<and>
      update_announcement forms today teachers coll announcement_id payload teacher_username =
        (Inl (HTTPException 401 ''Authentication required for this action''), coll) \<and>
      delete_announcement teachers coll announcement_id teacher_username =
        (Inl (HTTPException 401 ''Authentication required for this action''), coll)) \<and>
   (\<forall>u. teacher_username = Some u \<and> u \<noteq> [] \<and> find_teacher teachers u = None \<longrightarrow>
      create_announcement forms today teachers coll new_id payload teacher_username =
        (Inl (HTTPException 401 ''Invalid teacher credentials''), coll) \<and>
      update_announcement forms today teachers coll announcement_id payload teacher_username =
        (Inl (HTTPException 401 ''Invalid teacher credentials''), coll) \<and>
      delete_announcement teachers coll announcement_id teacher_username =
        (Inl (HTTPException 401 ''Invalid teacher credentials''), coll))"
proof (intro conjI impI allI)
  assume a: "teacher_username = None \<or> teacher_username = Some []"
  note r = require_teacher_missing [OF a, of teachers]
  show "create_announcement forms today teachers coll new_id payload teacher_username =
        (Inl (HTTPException 401 ''Authentication required for this action''), coll)"
    by (simp add: create_announcement_def r)
  show "update_announcement forms today teachers coll announcement_id payload teacher_username =
        (Inl (HTTPException 401 ''Authentication required for this action''), coll)"
    by (simp add: update_announcement_def r)
  show "delete_announcement teachers coll announcement_id teacher_username =
        (Inl (HTTPException 401 ''Authentication required for this action''), coll)"
    by (simp add: delete_announcement_def r)
next
  fix u
  assume a: "teacher_username = Some u \<and> u \<noteq> [] \<and> find_teacher teachers u = None"
  then have r: "require_teacher teachers teacher_username =
      Inl (HTTPException 401 ''Invalid teacher credentials'')"
    using require_teacher_unknown [of u teachers] by simp
  show "create_announcement forms today teachers coll new_id payload teacher_username =
        (Inl (HTTPException 401 ''Invalid teacher credentials''), coll)"
    by (simp add: create_announcement_def r)
  show "update_announcement forms today teachers coll announcement_id payload teacher_username =
        (Inl (HTTPException 401 ''Invalid teacher credentials''), coll)"
    by (simp add: update_announcement_def r)
  show "delete_announcement teachers coll announcement_id teacher_username =
        (Inl (HTTPException 401 ''Invalid teacher credentials''), coll)"
    by (simp add: delete_announcement_def r)
qed

theorem mutations_require_teacher_witness:
  "((None :: string option) = None \<or> (None :: string option) = Some []) \<and>
   create_announcement iso_only ex_today ex_teachers ex_coll ex_oid ex_payload None =
     (Inl (HTTPException 401 ''Authentication required for this action''), ex_coll) \<and>
   (''ghost'' \<noteq> [] \<and> find_teacher ex_teachers ''ghost'' = None) \<and>
   delete_announcement ex_teachers ex_coll ''650a1b2c3d4e5f0000000003'' (Some ''ghost'') =
     (Inl (HTTPException 401 ''Invalid teacher credentials''), ex_coll)"
proof -
  have g: "''ghost'' \<noteq> [] \<and> find_teacher ex_teachers ''ghost'' = None"
    by (simp add: find_teacher_def ex_teachers_def)
  have a: "create_announcement iso_only ex_today ex_teachers ex_coll ex_oid ex_payload None =
     (Inl (HTTPException 401 ''Authentication required for this action''), ex_coll)"
    using mutations_require_teacher [where teacher_username = None and forms = iso_only
        and today = ex_today and teachers = ex_teachers and coll = ex_coll and new_id = ex_oid
        and payload = ex_payload]
    by simp
  have b: "delete_announcement ex_teachers ex_coll ''650a1b2c3d4e5f0000000003''
       (Some ''ghost'') =
     (Inl (HTTPException 401 ''Invalid teacher credentials''), ex_coll)"
    using mutations_require_teacher [where teacher_username = "Some ''ghost''"
        and teachers = ex_teachers and coll = ex_coll
        and announcement_id = "''650a1b2c3d4e5f0000000003''"] g
    by simp
  show ?thesis using g a b by simp
qed

section \<open>Validation of the payload\<close>

lemma date_le_iff_not_lt: "date_le a b = (\<not> date_lt b a)"
  by (auto simp: date_le_def date_lt_def)

lemma AnnouncementPayload_cases:
  "AnnouncementPayload body = Inl RequestValidationError \<or> AnnouncementPayload body = Inr body"
  by (simp add: AnnouncementPayload_def)

lemma AnnouncementPayload_end_before_start:
  "start_date body = Some s \<Longrightarrow> date_lt (end_date body) s \<Longrightarrow>
   AnnouncementPayload body = Inl RequestValidationError"
  by (simp add: AnnouncementPayload_def validate_end_date_def)

lemma AnnouncementPayload_bad_length:
  "length (title body) < 1 \<or> 120 < length (title body) \<or>
   length (message body) < 1 \<or> 800 < length (message body) \<Longrightarrow>
   AnnouncementPayload body = Inl RequestValidationError"
  by (auto simp: AnnouncementPayload_def)

lemma AnnouncementPayload_valid:
  assumes "1 \<le> length (title body)" "length (title body) \<le> 120"
    and "1 \<le> length (message body)" "length (message body) \<le> 800"
    and "valid_date (end_date body)"
    and "start_date body = None \<or>
         (\<exists>s. start_date body = Some s \<and> valid_date s \<and> date_le s (end_date body))"
  shows "AnnouncementPayload body = Inr body"
  using assms
  by (auto simp: AnnouncementPayload_def validate_end_date_def date_le_iff_not_lt)

text \<open>
  C3. A request body whose start date is present and whose end date is strictly before
  it is refused by both the create and the update request with the validation error
  (status 422), whoever sends it, and the announcements collection is returned as it was.
\<close>

theorem end_before_start_rejected:
  assumes "start_date body = Some s" and "date_lt (end_date body) s"
  shows "post_request forms today teachers coll new_id body teacher_username =
           (Inl RequestValidationError, coll) \<and>
         put_request forms today teachers coll announcement_id body teacher_username =
           (Inl RequestValidationError, coll) \<and>
         status_code RequestValidationError = 422"
  using AnnouncementPayload_end_before_start [OF assms]
  by (simp add: post_request_def put_request_def)

theorem end_before_start_rejected_witness:
  "start_date ex_backwards = Some \<lparr>year = 2026, month = 12, day = 1\<rparr> \<and>
   date_lt (end_date ex_backwards) \<lparr>year = 2026, month = 12, day = 1\<rparr> \<and>
   post_request iso_only ex_today ex_teachers [] ex_oid ex_backwards (Some ''mrodriguez'') =
     (Inl RequestValidationError, []) \<and>
   put_request iso_only ex_today ex_teachers [] ''650a1b2c3d4e5f0000000001'' ex_backwards
     (Some ''mrodriguez'') = (Inl RequestValidationError, [])"
proof -
  have h1: "start_date ex_backwards = Some \<lparr>year = 2026, month = 12, day = 1\<rparr>"
    by (simp add: ex_backwards_def)
  have h2: "date_lt (end_date ex_backwards) \<lparr>year = 2026, month = 12, day = 1\<rparr>"
    by (simp add: ex_backwards_def date_lt_def)
  from end_before_start_rejected [OF h1 h2, where forms = iso_only and today = ex_today
      and teachers = ex_teachers
      and coll = "[]" and new_id = ex_oid and teacher_username = "Some ''mrodriguez''"
      and announcement_id = "''650a1b2c3d4e5f0000000001''"]
  show ?thesis using h1 h2 by blast
qed

text \<open>
  C10. Validation of the payload comes before the credential check. A create or update
  request whose body breaks a length bound of the title or the message, or whose end
  date is before its start date, is answered with the validation error (status 422)
  whatever the teacher identity is: missing, unknown or known. And whenever such a
  request is answered with status 401, its body has passed validation.
\<close>

theorem validation_precedes_credentials:
  "((length (title body) < 1 \<or> 120 < length (title body) \<or>
     length (message body) < 1 \<or> 800 < length (message body) \<or>
     (\<exists>s. start_date body = Some s \<and> date_lt (end_date body) s)) \<longrightarrow>
    post_request forms today teachers coll new_id body teacher_username =
      (Inl RequestValidationError, coll) \<and>
    put_request forms today teachers coll announcement_id body teacher_username =
      (Inl RequestValidationError, coll) \<and>
    status_code RequestValidationError = 422) \<and>
   ((\<exists>e. status_code e = 401 \<and>
         (fst (post_request forms today teachers coll new_id body teacher_username) = Inl e \<or>
          fst (put_request forms today teachers coll announcement_id body teacher_username) = Inl e))
     \<longrightarrow> AnnouncementPayload body = Inr body)"
proof (intro conjI impI)
  assume a: "length (title body) < 1 \<or> 120 < length (title body) \<or>
     length (message body) < 1 \<or> 800 < length (message body) \<or>
     (\<exists>s. start_date body = Some s \<and> date_lt (end_date body) s)"
  have v: "AnnouncementPayload body = Inl RequestValidationError"
    using a AnnouncementPayload_bad_length [of body] AnnouncementPayload_end_before_start [of body]
    by blast
  show "post_request forms today teachers coll new_id body teacher_username =
      (Inl RequestValidationError, coll)"
    by (simp add: post_request_def v)
  show "put_request forms today teachers coll announcement_id body teacher_username =
      (Inl RequestValidationError, coll)"
    by (simp add: put_request_def v)
  show "status_code RequestValidationError = 422" by simp
next
  assume "\<exists>e. status_code e = 401 \<and>
         (fst (post_request forms today teachers coll new_id body teacher_username) = Inl e \<or>
          fst (put_request forms today teachers coll announcement_id body teacher_username) = Inl e)"
  then obtain e where e: "status_code e = 401"
    and f: "fst (post_request forms today teachers coll new_id body teacher_username) = Inl e \<or>
          fst (put_request forms today teachers coll announcement_id body teacher_username) = Inl e"
    by blast
  show "AnnouncementPayload body = Inr body"
  proof (rule ccontr)
    assume "AnnouncementPayload body \<noteq> Inr body"
    with AnnouncementPayload_cases [of body]
    have v: "AnnouncementPayload body = Inl RequestValidationError" by blast
    from f have "e = RequestValidationError"
      by (auto simp: post_request_def put_request_def v)
    with e show False by simp
  qed
qed

theorem validation_precedes_credentials_witness:
  "(\<exists>s. start_date ex_backwards = Some s \<and> date_lt (end_date ex_backwards) s) \<and>
   post_request iso_only ex_today ex_teachers [] ex_oid ex_backwards None =
     (Inl RequestValidationError, []) \<and>
   put_request iso_only ex_today ex_teachers [] ''650a1b2c3d4e5f0000000001'' ex_backwards None =
     (Inl RequestValidationError, []) \<and>
   (\<exists>e. status_code e = 401 \<and>
        fst (post_request iso_only ex_today ex_teachers [] ex_oid ex_payload None) = Inl e) \<and>
   AnnouncementPayload ex_payload = Inr ex_payload"
proof -
  have h: "\<exists>s. start_date ex_backwards = Some s \<and> date_lt (end_date ex_backwards) s"
    by (simp add: ex_backwards_def date_lt_def)
  have a: "post_request iso_only ex_today ex_teachers [] ex_oid ex_backwards None =
     (Inl RequestValidationError, []) \<and>
   put_request iso_only ex_today ex_teachers [] ''650a1b2c3d4e5f0000000001'' ex_backwards None =
     (Inl RequestValidationError, [])"
    using validation_precedes_credentials [where body = ex_backwards and forms = iso_only
        and today = ex_today and teachers = ex_teachers and coll = "[]" and new_id = ex_oid
        and teacher_username = None and announcement_id = "''650a1b2c3d4e5f0000000001''"] h
    by blast
  have v: "AnnouncementPayload ex_payload = Inr ex_payload"
    by (simp add: AnnouncementPayload_def ex_payload_def validate_end_date_def valid_date_def
        days_in_month_def)
  have g: "\<exists>e. status_code e = 401 \<and>
        fst (post_request iso_only ex_today ex_teachers [] ex_oid ex_payload None) = Inl e"
    by (simp add: post_request_def v create_announcement_def require_teacher_def)
  have b: "AnnouncementPayload ex_payload = Inr ex_payload"
    using validation_precedes_credentials [where body = ex_payload and forms = iso_only
        and today = ex_today and teachers = ex_teachers and coll = "[]" and new_id = ex_oid
        and teacher_username = None and announcement_id = "''650a1b2c3d4e5f0000000001''"] g
    by blast
  show ?thesis using h a g b by blast
qed

section \<open>Reading a stored document\<close>

lemma parse_optional_date_shaped:
  "date_shaped v \<Longrightarrow> parse_optional_date forms v = Inr (parsed_date forms v)"
proof (cases v)
  case None
  then show ?thesis by (simp add: parse_optional_date_def)
next
  case (Some b)
  assume d: "date_shaped v"
  show ?thesis
  proof (cases b)
    case BNull
    with Some show ?thesis by (simp add: parse_optional_date_def)
  next
    case (BStr s)
    with Some show ?thesis by (simp add: parse_optional_date_def)
  next
    case (BInt n)
    with Some d show ?thesis by (simp add: parse_optional_date_def)
  qed
qed

lemma parse_optional_date_number:
  "n \<noteq> 0 \<Longrightarrow> parse_optional_date forms (Some (BInt n)) = Inl (Uncaught ''TypeError'')"
  by (simp add: parse_optional_date_def)

lemma holds_no_date_parsed: "holds_no_date forms v \<Longrightarrow> parsed_date forms v = None"
  by (cases "(forms, v)" rule: holds_no_date.cases) auto

lemma parsed_date_stored: "stored_date v = Some d \<Longrightarrow> parsed_date forms v = Some d"
  by (cases v rule: stored_date.cases) (auto simp: fromisoformat_iso iso_date_empty)

lemma str_field_shaped: "text_shaped v \<Longrightarrow> \<exists>t. str_field v = Inr t"
  by (cases v rule: text_shaped.cases) simp_all

lemma doc_to_response_readable:
  assumes "readable doc"
  shows "\<exists>t m. doc_to_response forms today doc =
     Inr \<lparr>r_id = oid_str (doc_id doc), r_title = t, r_message = m,
          r_start_date = parsed_date forms (doc_fields doc ''start_date''),
          r_end_date = (case parsed_date forms (doc_fields doc ''end_date'') of
                          None \<Rightarrow> today | Some d \<Rightarrow> d)\<rparr> \<and>
     str_field (doc_fields doc ''title'') = Inr t \<and>
     str_field (doc_fields doc ''message'') = Inr m"
proof -
  from assms obtain t m where t: "str_field (doc_fields doc ''title'') = Inr t"
    and m: "str_field (doc_fields doc ''message'') = Inr m"
    using str_field_shaped unfolding readable_def by blast
  from assms have s: "parse_optional_date forms (doc_fields doc ''start_date'') =
      Inr (parsed_date forms (doc_fields doc ''start_date''))"
    and e: "parse_optional_date forms (doc_fields doc ''end_date'') =
      Inr (parsed_date forms (doc_fields doc ''end_date''))"
    by (simp_all add: readable_def parse_optional_date_shaped)
  show ?thesis
    by (simp add: doc_to_response_def s e t m)
qed

text \<open>
  C9, as amended. Take a stored document whose title and message are each missing or a
  string and whose start date and end date fields are each falsy or a string. Its
  conversion to a response succeeds, whatever forms of date text the Python at hand
  reads; when the end date field is missing, null, empty or a string that
  \<^verbatim>\<open>date.fromisoformat\<close> rejects, the response carries today as its end date; when the
  start date field is one of those, the response has no start date.
\<close>

theorem malformed_stored_dates_default:
  assumes "readable doc"
  shows "\<exists>r. doc_to_response forms today doc = Inr r \<and>
           (holds_no_date forms (doc_fields doc ''end_date'') \<longrightarrow> r_end_date r = today) \<and>
           (holds_no_date forms (doc_fields doc ''start_date'') \<longrightarrow> r_start_date r = None)"
proof -
  from doc_to_response_readable [OF assms, where forms = forms and today = today]
  obtain t m where
    r: "doc_to_response forms today doc =
     Inr \<lparr>r_id = oid_str (doc_id doc), r_title = t, r_message = m,
          r_start_date = parsed_date forms (doc_fields doc ''start_date''),
          r_end_date = (case parsed_date forms (doc_fields doc ''end_date'') of
                          None \<Rightarrow> today | Some d \<Rightarrow> d)\<rparr>"
    by blast
  show ?thesis
    unfolding r by (simp add: holds_no_date_parsed)
qed

theorem malformed_stored_dates_default_witness:
  "readable ex_malformed \<and>
   holds_no_date iso_only (doc_fields ex_malformed ''end_date'') \<and>
   holds_no_date iso_only (doc_fields ex_malformed ''start_date'') \<and>
   (\<exists>r. doc_to_response iso_only ex_today ex_malformed = Inr r \<and>
        r_end_date r = ex_today \<and> r_start_date r = None)"
proof -
  have h: "readable ex_malformed"
    by (simp add: readable_def ex_malformed_def)
  have e: "holds_no_date iso_only (doc_fields ex_malformed ''end_date'')"
    by (simp add: ex_malformed_def fromisoformat_def iso_only_def iso_date_def)
  have s: "holds_no_date iso_only (doc_fields ex_malformed ''start_date'')"
    by (simp add: ex_malformed_def fromisoformat_def iso_only_def iso_date_def digit_val_def
        valid_date_def)
  from malformed_stored_dates_default [OF h, where forms = iso_only and today = ex_today]
  show ?thesis using h e s by blast
qed

text \<open>
  The claim as it was stated fails on a date field that holds a number: the document
  \<open>ex_numeric\<close> has no end date and the number 20261201 as its start date, and its
  conversion raises \<^verbatim>\<open>TypeError\<close> instead of giving a response that ends today.
\<close>

theorem numeric_start_date_raises:
  "doc_fields ex_numeric ''end_date'' = None \<and>
   doc_fields ex_numeric ''start_date'' = Some (BInt 20261201) \<and>
   doc_to_response iso_only ex_today ex_numeric = Inl (Uncaught ''TypeError'')"
  by (simp add: ex_numeric_def doc_to_response_def parse_optional_date_def)

section \<open>Creating an announcement\<close>

lemma serialize_payload_fields:
  "serialize_payload p ''title'' = Some (BStr (strip (title p)))"
  "serialize_payload p ''message'' = Some (BStr (strip (message p)))"
  "serialize_payload p ''start_date'' =
     Some (case start_date p of None \<Rightarrow> BNull | Some d \<Rightarrow> BStr (isoformat d))"
  "serialize_payload p ''end_date'' = Some (BStr (isoformat (end_date p)))"
  by (simp_all add: serialize_payload_def)

lemma isoformat_not_empty: "isoformat d \<noteq> []"
  by (simp add: isoformat_def)

lemma parse_optional_date_isoformat:
  "valid_date d \<Longrightarrow> parse_optional_date forms (Some (BStr (isoformat d))) = Inr (Some d)"
  by (simp add: parse_optional_date_def isoformat_not_empty fromisoformat_isoformat)

lemma parse_optional_date_null: "parse_optional_date forms (Some BNull) = Inr None"
  by (simp add: parse_optional_date_def)

lemma doc_to_response_serialized:
  assumes "valid_date (end_date p)"
    and "\<forall>s. start_date p = Some s \<longrightarrow> valid_date s"
    and "doc_fields doc ''title'' = serialize_payload p ''title''"
    and "doc_fields doc ''message'' = serialize_payload p ''message''"
    and "doc_fields doc ''start_date'' = serialize_payload p ''start_date''"
    and "doc_fields doc ''end_date'' = serialize_payload p ''end_date''"
  shows "doc_to_response forms today doc =
     Inr \<lparr>r_id = oid_str (doc_id doc), r_title = strip (title p),
          r_message = strip (message p), r_start_date = start_date p,
          r_end_date = end_date p\<rparr>"
proof -
  have s: "parse_optional_date forms (doc_fields doc ''start_date'') = Inr (start_date p)"
    using assms(2,5)
    by (cases "start_date p")
       (simp_all add: serialize_payload_fields parse_optional_date_null
          parse_optional_date_isoformat)
  have e: "parse_optional_date forms (doc_fields doc ''end_date'') = Inr (Some (end_date p))"
    using assms(1,6) by (simp add: serialize_payload_fields parse_optional_date_isoformat)
  show ?thesis
    using assms(3,4) by (simp add: doc_to_response_def s e serialize_payload_fields)
qed

lemma find_one_append_new:
  "new_id \<notin> doc_id ` set coll \<Longrightarrow> doc_id d = new_id \<Longrightarrow> find_one (coll @ [d]) new_id = Some d"
  unfolding find_one_def by (induction coll) auto

lemma AnnouncementPayload_dates:
  assumes "AnnouncementPayload body = Inr p"
  shows "p = body" and "valid_date (end_date body)"
    and "\<forall>s. start_date body = Some s \<longrightarrow> valid_date s"
  using assms by (auto simp: AnnouncementPayload_def split: if_splits option.splits)

lemma create_announcement_ok:
  assumes t: "require_teacher teachers teacher_username = Inr t"
    and v: "valid_date (end_date p)" "\<forall>s. start_date p = Some s \<longrightarrow> valid_date s"
    and n: "new_id \<notin> doc_id ` set coll"
  shows "create_announcement forms today teachers coll new_id p teacher_username =
     (Inr \<lparr>r_id = oid_str new_id, r_title = strip (title p), r_message = strip (message p),
           r_start_date = start_date p, r_end_date = end_date p\<rparr>,
      coll @ [\<lparr>doc_id = new_id, doc_fields = serialize_payload p\<rparr>])"
proof -
  let ?d = "\<lparr>doc_id = new_id, doc_fields = serialize_payload p\<rparr>"
  have i: "insert_one coll new_id (serialize_payload p) = Inr (coll @ [?d])"
    using n by (simp add: insert_one_def)
  have f: "find_one (coll @ [?d]) new_id = Some ?d"
    using n by (simp add: find_one_append_new)
  have r: "doc_to_response forms today ?d =
     Inr \<lparr>r_id = oid_str new_id, r_title = strip (title p), r_message = strip (message p),
           r_start_date = start_date p, r_end_date = end_date p\<rparr>"
    using doc_to_response_serialized [OF v, where doc = ?d and forms = forms and today = today]
    by simp
  show ?thesis
    by (simp add: create_announcement_def t i f r)
qed

lemma require_teacher_known:
  "u \<noteq> [] \<Longrightarrow> find_teacher teachers u = Some t \<Longrightarrow> require_teacher teachers (Some u) = Inr t"
  by (simp add: require_teacher_def)

lemma length_strip_le: "length (strip s) \<le> length s"
proof -
  have "length (strip s) \<le> length (dropWhile is_space s)"
    unfolding strip_def using length_dropWhile_le [of is_space "rev (dropWhile is_space s)"]
    by simp
  also have "\<dots> \<le> length s" by (rule length_dropWhile_le)
  finally show ?thesis .
qed


lemma hex_char_facts:
  assumes "k < 16"
  shows "hex_val (hex_char k) = Some k" and "\<not> is_ascii_space (hex_char k)"
proof -
  from assms have "k = 0 \<or> k = 1 \<or> k = 2 \<or> k = 3 \<or> k = 4 \<or> k = 5 \<or> k = 6 \<or> k = 7 \<or>
      k = 8 \<or> k = 9 \<or> k = 10 \<or> k = 11 \<or> k = 12 \<or> k = 13 \<or> k = 14 \<or> k = 15"
    by arith
  then show "hex_val (hex_char k) = Some k" and "\<not> is_ascii_space (hex_char k)"
    by (auto simp: hex_char_def hex_val_def is_ascii_space_def)
qed

lemma oid_str_Cons:
  "oid_str (b # bs) = hex_char (b div 16) # hex_char (b mod 16) # oid_str bs"
  by (simp add: oid_str_def)

lemma length_oid_str: "length (oid_str oid) = 2 * length oid"
  by (induction oid) (simp_all add: oid_str_Cons, simp add: oid_str_def)

lemma fromhex_oid_str: "list_all (\<lambda>b. b < 256) oid \<Longrightarrow> fromhex (oid_str oid) = Some oid"
proof (induction oid)
  case Nil
  then show ?case by (simp add: oid_str_def)
next
  case (Cons b bs)
  then have b: "b div 16 < 16" "b mod 16 < 16" and ih: "fromhex (oid_str bs) = Some bs"
    by auto
  have "16 * (b div 16) + b mod 16 = b" by simp
  then show ?case
    by (simp add: oid_str_Cons hex_char_facts [OF b(1)] hex_char_facts [OF b(2)] ih)
qed

lemma ObjectId_oid_str: "valid_oid oid \<Longrightarrow> ObjectId (oid_str oid) = Some oid"
  by (simp add: valid_oid_def ObjectId_def length_oid_str fromhex_oid_str)

text \<open>
  C8. A create request with a valid body (title of 1 to 120 characters, message of 1 to
  800, an end date, and no start date or one that is on or before the end date), sent by
  a teacher of the directory, for which the driver generates an identifier of twelve
  bytes that the store does not hold yet, succeeds. The identifier in the response is
  the text of that identifier, 24 characters that the identifier constructor reads back
  as the same identifier, and looking that identifier up in the collection gives the
  document written. The response has the dates of the body; the stored document holds
  them as their ISO text, and reading that text back gives the dates of the response.
\<close>

theorem create_round_trip:
  assumes "1 \<le> length (title body)" and "length (title body) \<le> 120"
    and "1 \<le> length (message body)" and "length (message body) \<le> 800"
    and "valid_date (end_date body)"
    and "start_date body = None \<or>
         (\<exists>s. start_date body = Some s \<and> valid_date s \<and> date_le s (end_date body))"
    and "teacher_username = Some u \<and> u \<noteq> [] \<and> find_teacher teachers u = Some t"
    and "new_id \<notin> doc_id ` set coll"
    and "valid_oid new_id"
  shows "\<exists>r coll'. post_request forms today teachers coll new_id body teacher_username =
             (Inr r, coll') \<and>
           coll' = coll @ [\<lparr>doc_id = new_id, doc_fields = serialize_payload body\<rparr>] \<and>
           r_id r = oid_str new_id \<and> length (r_id r) = 24 \<and>
           ObjectId (r_id r) = Some new_id \<and>
           find_one coll' new_id =
             Some \<lparr>doc_id = new_id, doc_fields = serialize_payload body\<rparr> \<and>
           r_start_date r = start_date body \<and> r_end_date r = end_date body \<and>
           serialize_payload body ''end_date'' = Some (BStr (isoformat (end_date body))) \<and>
           fromisoformat forms (isoformat (end_date body)) = Some (r_end_date r) \<and>
           (\<forall>s. start_date body = Some s \<longrightarrow>
              serialize_payload body ''start_date'' = Some (BStr (isoformat s)) \<and>
              fromisoformat forms (isoformat s) = r_start_date r)"
proof -
  have p: "AnnouncementPayload body = Inr body"
    using assms(1-6) by (rule AnnouncementPayload_valid)
  have vs: "\<forall>s. start_date body = Some s \<longrightarrow> valid_date s"
    using assms(6) by auto
  have t: "require_teacher teachers teacher_username = Inr t"
    using assms(7) require_teacher_known [of u teachers t] by simp
  note c = create_announcement_ok [OF t assms(5) vs assms(8), where forms = forms
      and today = today]
  have l: "length (oid_str new_id) = 24"
    using assms(9) by (simp add: length_oid_str valid_oid_def)
  have f: "find_one (coll @ [\<lparr>doc_id = new_id, doc_fields = serialize_payload body\<rparr>]) new_id =
      Some \<lparr>doc_id = new_id, doc_fields = serialize_payload body\<rparr>"
    using assms(8) by (simp add: find_one_append_new)
  show ?thesis
    using vs assms(5)
    by (simp add: post_request_def p c l f ObjectId_oid_str [OF assms(9)]
        serialize_payload_fields fromisoformat_isoformat)
qed

theorem create_round_trip_witness:
  "(1 \<le> length (title ex_payload) \<and> length (title ex_payload) \<le> 120 \<and>
    1 \<le> length (message ex_payload) \<and> length (message ex_payload) \<le> 800 \<and>
    valid_date (end_date ex_payload) \<and> start_date ex_payload = None \<and>
    ''mrodriguez'' \<noteq> [] \<and>
    find_teacher ex_teachers ''mrodriguez'' = Some \<lparr>teacher_id = ''mrodriguez''\<rparr> \<and>
    ex_oid \<notin> doc_id ` set ex_coll \<and> valid_oid ex_oid) \<and>
   (\<exists>r coll'. post_request iso_only ex_today ex_teachers ex_coll ex_oid ex_payload
         (Some ''mrodriguez'') = (Inr r, coll') \<and>
       coll' = ex_coll @ [\<lparr>doc_id = ex_oid, doc_fields = serialize_payload ex_payload\<rparr>] \<and>
       r_id r = ''650a1b2c3d4e5f0000000001'' \<and> ObjectId (r_id r) = Some ex_oid \<and>
       r_start_date r = start_date ex_payload \<and> r_end_date r = end_date ex_payload)"
proof -
  have h1: "1 \<le> length (title ex_payload)" and h2: "length (title ex_payload) \<le> 120"
    and h3: "1 \<le> length (message ex_payload)" and h4: "length (message ex_payload) \<le> 800"
    by (simp_all add: ex_payload_def)
  have h5: "valid_date (end_date ex_payload)"
    by (simp add: ex_payload_def valid_date_def days_in_month_def)
  have h6: "start_date ex_payload = None"
    by (simp add: ex_payload_def)
  have h6': "start_date ex_payload = None \<or>
     (\<exists>s. start_date ex_payload = Some s \<and> valid_date s \<and> date_le s (end_date ex_payload))"
    using h6 by simp
  have h7: "Some ''mrodriguez'' = Some ''mrodriguez'' \<and> ''mrodriguez'' \<noteq> [] \<and>
    find_teacher ex_teachers ''mrodriguez'' = Some \<lparr>teacher_id = ''mrodriguez''\<rparr>"
    by (simp add: find_teacher_def ex_teachers_def)
  have h8: "ex_oid \<notin> doc_id ` set ex_coll"
    by (simp add: ex_coll_def ex_expired_def ex_current_def ex_future_def ex_oid_def)
  have h9: "valid_oid ex_oid"
    by (simp add: valid_oid_def ex_oid_def)
  have s: "oid_str ex_oid = ''650a1b2c3d4e5f0000000001''"
    by (simp add: oid_str_def ex_oid_def hex_char_def)
  from create_round_trip [OF h1 h2 h3 h4 h5 h6' h7 h8 h9, where forms = iso_only
      and today = ex_today]
  obtain r coll' where
    "post_request iso_only ex_today ex_teachers ex_coll ex_oid ex_payload
         (Some ''mrodriguez'') = (Inr r, coll')"
    "coll' = ex_coll @ [\<lparr>doc_id = ex_oid, doc_fields = serialize_payload ex_payload\<rparr>]"
    "r_id r = oid_str ex_oid" "ObjectId (r_id r) = Some ex_oid"
    "r_start_date r = start_date ex_payload" "r_end_date r = end_date ex_payload"
    by blast
  then show ?thesis using h1 h2 h3 h4 h5 h6 h7 h8 h9 s by auto
qed

text \<open>
  C4. The length bounds are checked on the title as sent, and the title is trimmed
  afterwards. The body \<open>ex_blank\<close>, whose title is one space, passes validation; the
  create request succeeds and the document written to the store has an empty title.
\<close>

theorem blank_title_stored_empty:
  "AnnouncementPayload ex_blank = Inr ex_blank \<and>
   length (title ex_blank) = 1 \<and>
   post_request forms ex_today ex_teachers [] ex_oid ex_blank (Some ''mrodriguez'') =
     (Inr \<lparr>r_id = oid_str ex_oid, r_title = [], r_message = ''Midterm Friday'',
           r_start_date = None, r_end_date = \<lparr>year = 2099, month = 1, day = 1\<rparr>\<rparr>,
      [\<lparr>doc_id = ex_oid, doc_fields = serialize_payload ex_blank\<rparr>]) \<and>
   serialize_payload ex_blank ''title'' = Some (BStr []) \<and>
   length (strip (title ex_blank)) = 0"
proof -
  have p: "AnnouncementPayload ex_blank = Inr ex_blank"
    by (simp add: AnnouncementPayload_def ex_blank_def validate_end_date_def valid_date_def
        days_in_month_def)
  have v: "valid_date (end_date ex_blank)" "\<forall>s. start_date ex_blank = Some s \<longrightarrow> valid_date s"
    by (simp_all add: ex_blank_def valid_date_def days_in_month_def)
  have t: "require_teacher ex_teachers (Some ''mrodriguez'') = Inr \<lparr>teacher_id = ''mrodriguez''\<rparr>"
    by (simp add: require_teacher_def find_teacher_def ex_teachers_def)
  have n: "ex_oid \<notin> doc_id ` set []" by simp
  have s: "strip (title ex_blank) = []" "strip (message ex_blank) = ''Midterm Friday''"
    by (simp_all add: strip_def is_space_def ex_blank_def)
  have f: "start_date ex_blank = None" "end_date ex_blank = \<lparr>year = 2099, month = 1, day = 1\<rparr>"
    "length (title ex_blank) = 1"
    by (simp_all add: ex_blank_def)
  show ?thesis
    using create_announcement_ok [OF t v n, where forms = forms and today = ex_today]
    by (simp add: post_request_def p s f serialize_payload_fields)
qed

section \<open>Updating and deleting by identifier\<close>

lemma find_one_and_update_absent:
  "oid \<notin> doc_id ` set coll \<Longrightarrow> find_one_and_update coll oid fvals = (None, coll)"
  by (induction coll) auto

lemma find_one_and_update_present:
  "oid \<in> doc_id ` set coll \<Longrightarrow>
   \<exists>d0 coll'. find_one_and_update coll oid fvals =
       (Some (d0\<lparr>doc_fields := doc_fields d0 ++ fvals\<rparr>), coll') \<and>
     d0 \<in> set coll \<and> doc_id d0 = oid \<and> map doc_id coll' = map doc_id coll"
proof (induction coll)
  case Nil
  then show ?case by simp
next
  case (Cons d ds)
  show ?case
  proof (cases "doc_id d = oid")
    case True
    then show ?thesis by auto
  next
    case False
    with Cons.prems have "oid \<in> doc_id ` set ds" by auto
    from Cons.IH [OF this] obtain d0 coll' where
      "find_one_and_update ds oid fvals =
         (Some (d0\<lparr>doc_fields := doc_fields d0 ++ fvals\<rparr>), coll')"
      "d0 \<in> set ds" "doc_id d0 = oid" "map doc_id coll' = map doc_id ds"
      by blast
    with False show ?thesis by auto
  qed
qed

lemma delete_one_absent:
  "oid \<notin> doc_id ` set coll \<Longrightarrow> delete_one coll oid = (0, coll)"
  by (induction coll) auto

lemma delete_one_subset: "set (snd (delete_one coll oid)) \<subseteq> set coll"
  by (induction coll) (auto split: prod.splits)

lemma delete_one_present:
  "oid \<in> doc_id ` set coll \<Longrightarrow>
   \<exists>coll'. delete_one coll oid = (1, coll') \<and>
     (distinct (map doc_id coll) \<longrightarrow>
        oid \<notin> doc_id ` set coll' \<and> distinct (map doc_id coll'))"
proof (induction coll)
  case Nil
  then show ?case by simp
next
  case (Cons d ds)
  show ?case
  proof (cases "doc_id d = oid")
    case True
    then show ?thesis by auto
  next
    case False
    with Cons.prems have "oid \<in> doc_id ` set ds" by auto
    from Cons.IH [OF this] obtain coll' where c: "delete_one ds oid = (1, coll')"
      and i: "distinct (map doc_id ds) \<longrightarrow>
        oid \<notin> doc_id ` set coll' \<and> distinct (map doc_id coll')"
      by blast
    have sub: "set coll' \<subseteq> set ds"
      using delete_one_subset [of ds oid] c by simp
    show ?thesis
      using False c i sub by auto
  qed
qed


lemma readable_updated:
  "readable (d\<lparr>doc_fields := doc_fields d ++ serialize_payload p\<rparr>)"
  by (cases "start_date p") (simp_all add: readable_def serialize_payload_def)

lemma update_announcement_result:
  assumes "require_teacher teachers teacher_username = Inr t"
  shows "(names_no_document coll announcement_id \<longrightarrow>
            update_announcement forms today teachers coll announcement_id payload teacher_username =
              (Inl (HTTPException 404 ''Announcement not found''), coll)) \<and>
         (\<not> names_no_document coll announcement_id \<longrightarrow>
            (\<exists>r coll'. update_announcement forms today teachers coll announcement_id payload
                 teacher_username = (Inr r, coll')))"
proof (cases "ObjectId announcement_id")
  case None
  then show ?thesis
    by (simp add: names_no_document_def update_announcement_def assms)
next
  case (Some oid)
  show ?thesis
  proof (cases "oid \<in> doc_id ` set coll")
    case False
    then show ?thesis
      by (simp add: names_no_document_def update_announcement_def assms Some
          find_one_and_update_absent)
  next
    case True
    from find_one_and_update_present [OF True, of "serialize_payload payload"]
    obtain d0 coll' where
      u: "find_one_and_update coll oid (serialize_payload payload) =
         (Some (d0\<lparr>doc_fields := doc_fields d0 ++ serialize_payload payload\<rparr>), coll')"
      by blast
    from doc_to_response_readable [OF readable_updated [of d0 payload], where forms = forms
        and today = today]
    obtain r where
      "doc_to_response forms today (d0\<lparr>doc_fields := doc_fields d0 ++ serialize_payload payload\<rparr>)
         = Inr r"
      by blast
    with True u show ?thesis
      by (simp add: names_no_document_def update_announcement_def assms Some)
  qed
qed

lemma delete_announcement_result:
  assumes "require_teacher teachers teacher_username = Inr t"
  shows "(names_no_document coll announcement_id \<longrightarrow>
            delete_announcement teachers coll announcement_id teacher_username =
              (Inl (HTTPException 404 ''Announcement not found''), coll)) \<and>
         (\<not> names_no_document coll announcement_id \<longrightarrow>
            (\<exists>coll'. delete_announcement teachers coll announcement_id teacher_username =
                 (Inr [(''message'', ''Announcement deleted'')], coll') \<and>
               (distinct (map doc_id coll) \<longrightarrow> names_no_document coll' announcement_id)))"
proof (cases "ObjectId announcement_id")
  case None
  then show ?thesis
    by (simp add: names_no_document_def delete_announcement_def assms)
next
  case (Some oid)
  show ?thesis
  proof (cases "oid \<in> doc_id ` set coll")
    case False
    then show ?thesis
      by (simp add: names_no_document_def delete_announcement_def assms Some delete_one_absent)
  next
    case True
    from delete_one_present [OF True] obtain coll' where
      "delete_one coll oid = (1, coll')"
      "distinct (map doc_id coll) \<longrightarrow> oid \<notin> doc_id ` set coll' \<and> distinct (map doc_id coll')"
      by blast
    with True show ?thesis
      by (simp add: names_no_document_def delete_announcement_def assms Some)
  qed
qed

text \<open>
  C5. For a request by a teacher of the directory and any identifier string: when the
  identifier constructor rejects the string, or no stored document has the identifier
  it gives, update and delete both fail with status 404 and leave the collection as it
  was; otherwise both succeed. A string of 24 characters with white space between its
  bytes is not rejected: it gives an identifier of fewer bytes, and the 404 then comes
  from the store finding no document. So deleting an identifier that does not exist is
  answered with 404, and in a collection whose identifiers are distinct, deleting the
  same identifier a second time is answered with 404.
\<close>

theorem not_found_exactly_when:
  assumes "require_teacher teachers teacher_username = Inr t"
  shows "(names_no_document coll announcement_id \<longrightarrow>
            update_announcement forms today teachers coll announcement_id payload teacher_username =
              (Inl (HTTPException 404 ''Announcement not found''), coll) \<and>
            delete_announcement teachers coll announcement_id teacher_username =
              (Inl (HTTPException 404 ''Announcement not found''), coll)) \<and>
         (\<not> names_no_document coll announcement_id \<longrightarrow>
            (\<exists>r coll'. update_announcement forms today teachers coll announcement_id payload
                 teacher_username = (Inr r, coll')) \<and>
            (\<exists>coll'. delete_announcement teachers coll announcement_id teacher_username =
                 (Inr [(''message'', ''Announcement deleted'')], coll'))) \<and>
         (distinct (map doc_id coll) \<longrightarrow>
            fst (delete_announcement teachers
                  (snd (delete_announcement teachers coll announcement_id teacher_username))
                  announcement_id teacher_username) =
              Inl (HTTPException 404 ''Announcement not found''))"
proof (intro conjI impI)
  note u = update_announcement_result [OF assms, where coll = coll
      and announcement_id = announcement_id and forms = forms and today = today
      and payload = payload]
  note d = delete_announcement_result [OF assms, where coll = coll
      and announcement_id = announcement_id]
  {
    assume n: "names_no_document coll announcement_id"
    show "update_announcement forms today teachers coll announcement_id payload teacher_username =
              (Inl (HTTPException 404 ''Announcement not found''), coll)"
      using u n by blast
    show "delete_announcement teachers coll announcement_id teacher_username =
              (Inl (HTTPException 404 ''Announcement not found''), coll)"
      using d n by blast
  }
  {
    assume n: "\<not> names_no_document coll announcement_id"
    show "\<exists>r coll'. update_announcement forms today teachers coll announcement_id payload
                 teacher_username = (Inr r, coll')"
      using u n by blast
    show "\<exists>coll'. delete_announcement teachers coll announcement_id teacher_username =
                 (Inr [(''message'', ''Announcement deleted'')], coll')"
      using d n by blast
  }
  assume dist: "distinct (map doc_id coll)"
  let ?c = "snd (delete_announcement teachers coll announcement_id teacher_username)"
  have "names_no_document ?c announcement_id"
  proof (cases "names_no_document coll announcement_id")
    case True
    with d show ?thesis by simp
  next
    case False
    with d dist show ?thesis by auto
  qed
  with delete_announcement_result [OF assms, where coll = ?c
      and announcement_id = announcement_id]
  show "fst (delete_announcement teachers ?c announcement_id teacher_username) =
              Inl (HTTPException 404 ''Announcement not found'')"
    by simp
qed


lemma insert_one_distinct:
  "distinct (map doc_id coll) \<Longrightarrow> insert_one coll new_id fvals = Inr coll' \<Longrightarrow>
   distinct (map doc_id coll')"
  by (auto simp: insert_one_def split: if_splits)

theorem not_found_exactly_when_witness:
  "require_teacher ex_teachers (Some ''mrodriguez'') = Inr \<lparr>teacher_id = ''mrodriguez''\<rparr> \<and>
   ObjectId ''not-an-id'' = None \<and> names_no_document ex_coll ''not-an-id'' \<and>
   delete_announcement ex_teachers ex_coll ''not-an-id'' (Some ''mrodriguez'') =
     (Inl (HTTPException 404 ''Announcement not found''), ex_coll) \<and>
   ObjectId ''650a1b2c3d4e5f00 0000 03'' = Some [101, 10, 27, 44, 61, 78, 95, 0, 0, 0, 3] \<and>
   names_no_document ex_coll ''650a1b2c3d4e5f00 0000 03'' \<and>
   update_announcement iso_only ex_today ex_teachers ex_coll ''650a1b2c3d4e5f00 0000 03''
       ex_payload (Some ''mrodriguez'') =
     (Inl (HTTPException 404 ''Announcement not found''), ex_coll) \<and>
   \<not> names_no_document ex_coll ''650a1b2c3d4e5f0000000003'' \<and>
   (\<exists>r coll'. update_announcement iso_only ex_today ex_teachers ex_coll
       ''650a1b2c3d4e5f0000000003'' ex_payload (Some ''mrodriguez'') = (Inr r, coll')) \<and>
   distinct (map doc_id ex_coll) \<and>
   fst (delete_announcement ex_teachers
         (snd (delete_announcement ex_teachers ex_coll ''650a1b2c3d4e5f0000000003''
                (Some ''mrodriguez'')))
         ''650a1b2c3d4e5f0000000003'' (Some ''mrodriguez'')) =
     Inl (HTTPException 404 ''Announcement not found'')"
proof -
  have t: "require_teacher ex_teachers (Some ''mrodriguez'') =
      Inr \<lparr>teacher_id = ''mrodriguez''\<rparr>"
    by (simp add: require_teacher_def find_teacher_def ex_teachers_def)
  have ids: "map doc_id ex_coll =
      [[101, 10, 27, 44, 61, 78, 95, 0, 0, 0, 0, 2], [101, 10, 27, 44, 61, 78, 95, 0, 0, 0, 0, 3],
       [101, 10, 27, 44, 61, 78, 95, 0, 0, 0, 0, 4]]"
    by (simp add: ex_coll_def ex_expired_def ex_current_def ex_future_def)
  have img: "doc_id ` set ex_coll = set (map doc_id ex_coll)"
    by simp
  have o0: "ObjectId ''not-an-id'' = None"
    by (simp add: ObjectId_def)
  have o1: "ObjectId ''650a1b2c3d4e5f00 0000 03'' = Some [101, 10, 27, 44, 61, 78, 95, 0, 0, 0, 3]"
    by (simp add: ObjectId_def hex_val_def is_ascii_space_def)
  have o2: "ObjectId ''650a1b2c3d4e5f0000000003'' =
      Some [101, 10, 27, 44, 61, 78, 95, 0, 0, 0, 0, 3]"
    by (simp add: ObjectId_def hex_val_def is_ascii_space_def)
  have n0: "names_no_document ex_coll ''not-an-id''"
    by (simp add: names_no_document_def o0)
  have n1: "names_no_document ex_coll ''650a1b2c3d4e5f00 0000 03''"
    unfolding names_no_document_def o1 img ids by simp
  have n2: "\<not> names_no_document ex_coll ''650a1b2c3d4e5f0000000003''"
    unfolding names_no_document_def o2 img ids by simp
  have d: "distinct (map doc_id ex_coll)"
    unfolding ids by simp
  note a = not_found_exactly_when [OF t, where coll = ex_coll
      and announcement_id = "''not-an-id''" and forms = iso_only and today = ex_today
      and payload = ex_payload]
  note b = not_found_exactly_when [OF t, where coll = ex_coll
      and announcement_id = "''650a1b2c3d4e5f00 0000 03''" and forms = iso_only
      and today = ex_today and payload = ex_payload]
  note c = not_found_exactly_when [OF t, where coll = ex_coll
      and announcement_id = "''650a1b2c3d4e5f0000000003''" and forms = iso_only
      and today = ex_today and payload = ex_payload]
  show ?thesis using t o0 o1 n0 n1 n2 d a b c by blast
qed

section \<open>Listing announcements\<close>

lemma set_insort_doc: "set (insort_doc k d ds) = insert d (set ds)"
  by (induction ds) auto

lemma set_sort_docs: "set (sort_docs k ds) = set ds"
  unfolding sort_docs_def by (induction ds) (simp_all add: set_insort_doc)

lemma length_insort_doc: "length (insort_doc k d ds) = Suc (length ds)"
  by (induction ds) auto

lemma length_sort_docs: "length (sort_docs k ds) = length ds"
  unfolding sort_docs_def by (induction ds) (simp_all add: length_insort_doc)

lemma map_result_all:
  "\<forall>x\<in>set xs. \<exists>y. f x = Inr y \<Longrightarrow>
   \<exists>ys. map_result f xs = Inr ys \<and> length ys = length xs \<and>
        set ys = {y. \<exists>x\<in>set xs. f x = Inr y}"
proof (induction xs)
  case Nil
  then show ?case by simp
next
  case (Cons x xs)
  from Cons.prems obtain y where y: "f x = Inr y" by auto
  from Cons obtain ys where ys: "map_result f xs = Inr ys" "length ys = length xs"
    "set ys = {y. \<exists>x\<in>set xs. f x = Inr y}"
    by auto
  have "map_result f (x # xs) = Inr (y # ys)"
    by (simp add: y ys)
  moreover have "set (y # ys) = {z. \<exists>a\<in>set (x # xs). f a = Inr z}"
    using y ys(3) by auto
  ultimately show ?case using ys(2) by simp
qed

lemma well_formed_readable: "well_formed doc \<Longrightarrow> readable doc"
proof -
  assume w: "well_formed doc"
  have e: "date_shaped (doc_fields doc ''end_date'')"
    using w unfolding well_formed_def stored_end_def
    by (cases "doc_fields doc ''end_date''" rule: stored_date.cases) simp_all
  have s: "date_shaped (doc_fields doc ''start_date'')"
    using w unfolding well_formed_def stored_start_def
    by (cases "doc_fields doc ''start_date''" rule: stored_date.cases) auto
  show ?thesis
    using w e s by (simp add: well_formed_def readable_def)
qed

lemma stored_date_Some:
  "stored_date v = Some d \<Longrightarrow> v = Some (BStr (isoformat d)) \<and> valid_date d"
  by (cases v rule: stored_date.cases) (auto dest: isoformat_iso_date)

lemma gte_today_unexpired:
  assumes "valid_date today" and "stored_end doc \<noteq> None"
  shows "cond_holds (Gte (isoformat today)) (doc_fields doc ''end_date'') =
         unexpired_on today doc"
proof -
  from assms(2) obtain e where e: "stored_end doc = Some e" by auto
  from stored_date_Some [OF e [unfolded stored_end_def]]
  have "doc_fields doc ''end_date'' = Some (BStr (isoformat e))" "valid_date e" by auto
  then show ?thesis
    using assms(1) e by (simp add: unexpired_on_def isoformat_le)
qed

lemma start_clause_started:
  assumes "valid_date today"
    and "doc_fields doc ''start_date'' = None \<or> doc_fields doc ''start_date'' = Some BNull \<or>
         stored_start doc \<noteq> None"
  shows "clause_holds doc
           (Or [[Field ''start_date'' (Exists False)],
                [Field ''start_date'' IsNull],
                [Field ''start_date'' (Lte (isoformat today))]]) =
         (case stored_start doc of None \<Rightarrow> True | Some s \<Rightarrow> date_le s today)"
proof (cases "stored_start doc")
  case None
  with assms(2) show ?thesis by auto
next
  case (Some s)
  from stored_date_Some [OF Some [unfolded stored_start_def]]
  have "doc_fields doc ''start_date'' = Some (BStr (isoformat s))" "valid_date s" by auto
  then show ?thesis
    using assms(1) Some by (simp add: isoformat_le)
qed

lemma matches_default:
  assumes "valid_date today" and "well_formed doc"
  shows "matches (list_query today False False) doc = current_on today doc"
proof -
  have e: "stored_end doc \<noteq> None"
    and s: "doc_fields doc ''start_date'' = None \<or> doc_fields doc ''start_date'' = Some BNull \<or>
         stored_start doc \<noteq> None"
    using assms(2) by (simp_all add: well_formed_def)
  have "matches (list_query today False False) doc =
        (cond_holds (Gte (isoformat today)) (doc_fields doc ''end_date'') \<and>
         clause_holds doc
           (Or [[Field ''start_date'' (Exists False)],
                [Field ''start_date'' IsNull],
                [Field ''start_date'' (Lte (isoformat today))]]))"
    by (simp add: matches_def list_query_def del: cond_holds.simps)
  also have "\<dots> = current_on today doc"
    unfolding gte_today_unexpired [OF assms(1) e] start_clause_started [OF assms(1) s]
    by (simp only: current_on_def)
  finally show ?thesis .
qed

lemma matches_future:
  assumes "valid_date today" and "well_formed doc"
  shows "matches (list_query today False True) doc = unexpired_on today doc"
proof -
  have e: "stored_end doc \<noteq> None"
    using assms(2) by (simp add: well_formed_def)
  have "matches (list_query today False True) doc =
        cond_holds (Gte (isoformat today)) (doc_fields doc ''end_date'')"
    by (simp add: matches_def list_query_def del: cond_holds.simps)
  then show ?thesis
    by (simp only: gte_today_unexpired [OF assms(1) e])
qed

lemma matches_expired: "matches (list_query today True include_future) doc"
  by (simp add: matches_def list_query_def)


lemma date_lt_iff_not_le: "date_lt a b = (\<not> date_le b a)"
  by (auto simp: date_le_def date_lt_def)

lemma well_formed_parsed:
  assumes "well_formed doc"
  shows "parsed_date forms (doc_fields doc ''end_date'') = stored_end doc"
    and "parsed_date forms (doc_fields doc ''start_date'') = stored_start doc"
proof -
  from assms obtain e where "stored_date (doc_fields doc ''end_date'') = Some e"
    by (auto simp: well_formed_def stored_end_def)
  then show "parsed_date forms (doc_fields doc ''end_date'') = stored_end doc"
    by (simp add: stored_end_def parsed_date_stored)
  from assms consider "doc_fields doc ''start_date'' = None"
    | "doc_fields doc ''start_date'' = Some BNull"
    | s where "stored_date (doc_fields doc ''start_date'') = Some s"
    by (auto simp: well_formed_def stored_start_def)
  then show "parsed_date forms (doc_fields doc ''start_date'') = stored_start doc"
    by cases (simp_all add: stored_start_def parsed_date_stored)
qed

lemma response_dates:
  assumes "well_formed doc" and "doc_to_response forms today doc = Inr r"
  shows "r_start_date r = stored_start doc"
    and "r_end_date r = (case stored_end doc of None \<Rightarrow> today | Some e \<Rightarrow> e)"
  using doc_to_response_readable [OF well_formed_readable [OF assms(1)], where forms = forms
      and today = today] assms(2)
  by (auto simp: well_formed_parsed [OF assms(1)])

lemma list_announcements_readable:
  assumes "\<forall>d\<in>set coll. readable d"
  shows "\<exists>rs. list_announcements forms today coll include_expired include_future = Inr rs \<and>
           length rs =
             length (find_docs coll (list_query today include_expired include_future)) \<and>
           set rs = {r. \<exists>d\<in>set coll.
                      matches (list_query today include_expired include_future) d \<and>
                      doc_to_response forms today d = Inr r}"
proof -
  let ?q = "list_query today include_expired include_future"
  let ?ds = "sort_docs ''end_date'' (find_docs coll ?q)"
  have s: "set ?ds = {d \<in> set coll. matches ?q d}"
    by (simp add: set_sort_docs find_docs_def)
  have "\<forall>d\<in>set ?ds. \<exists>r. doc_to_response forms today d = Inr r"
  proof
    fix d assume "d \<in> set ?ds"
    with s assms have "readable d" by auto
    from doc_to_response_readable [OF this, where forms = forms and today = today]
    show "\<exists>r. doc_to_response forms today d = Inr r" by blast
  qed
  from map_result_all [OF this] obtain rs where
    rs: "map_result (doc_to_response forms today) ?ds = Inr rs" "length rs = length ?ds"
    "set rs = {r. \<exists>d\<in>set ?ds. doc_to_response forms today d = Inr r}"
    by blast
  have "set rs = {r. \<exists>d\<in>set coll. matches ?q d \<and> doc_to_response forms today d = Inr r}"
    using rs(3) s by auto
  with rs(1,2) show ?thesis
    by (auto simp: list_announcements_def length_sort_docs)
qed

text \<open>
  C1. In a collection of announcements stored as the data model describes them, the list
  with both flags false selects exactly the documents that are current today: end date
  on or after today, and start date absent, null or on or before today. The responses
  returned are exactly the responses of those documents, and none of them has an end
  date strictly before today or a start date strictly after today.
\<close>

theorem default_list_is_current:
  assumes "valid_date today" and "\<forall>d\<in>set coll. well_formed d"
  shows "find_docs coll (list_query today False False) = filter (current_on today) coll \<and>
         (\<exists>rs. list_announcements forms today coll False False = Inr rs \<and>
            set rs = {r. \<exists>d\<in>set coll. current_on today d \<and> doc_to_response forms today d = Inr r} \<and>
            (\<forall>r\<in>set rs. \<not> date_lt (r_end_date r) today \<and>
                         (\<forall>s. r_start_date r = Some s \<longrightarrow> \<not> date_lt today s)))"
proof -
  have m: "\<forall>d\<in>set coll. matches (list_query today False False) d = current_on today d"
    using assms by (simp add: matches_default)
  have rd: "\<forall>d\<in>set coll. readable d"
    using assms(2) by (simp add: well_formed_readable)
  have f: "find_docs coll (list_query today False False) = filter (current_on today) coll"
    unfolding find_docs_def using m by (simp cong: filter_cong)
  from list_announcements_readable [OF rd, where forms = forms and today = today
      and include_expired = False and include_future = False]
  obtain rs where
    l: "list_announcements forms today coll False False = Inr rs"
    and s: "set rs = {r. \<exists>d\<in>set coll. matches (list_query today False False) d \<and>
                 doc_to_response forms today d = Inr r}"
    by blast
  have s': "set rs = {r. \<exists>d\<in>set coll. current_on today d \<and> doc_to_response forms today d = Inr r}"
    using s m by auto
  have n: "\<forall>r\<in>set rs. \<not> date_lt (r_end_date r) today \<and>
                         (\<forall>s. r_start_date r = Some s \<longrightarrow> \<not> date_lt today s)"
  proof
    fix r assume "r \<in> set rs"
    with s' obtain d where d: "d \<in> set coll" "current_on today d"
      "doc_to_response forms today d = Inr r"
      by auto
    from assms(2) d(1) have "well_formed d" by simp
    note rr = response_dates [OF this d(3)]
    from d(2) obtain e where e: "stored_end d = Some e" "date_le today e"
      by (auto simp: current_on_def unexpired_on_def split: option.splits)
    have 1: "\<not> date_lt (r_end_date r) today"
      using rr(2) e by (simp add: date_lt_iff_not_le)
    have 2: "\<forall>s. r_start_date r = Some s \<longrightarrow> \<not> date_lt today s"
      using rr(1) d(2) by (auto simp: current_on_def date_lt_iff_not_le)
    from 1 2 show "\<not> date_lt (r_end_date r) today \<and>
                         (\<forall>s. r_start_date r = Some s \<longrightarrow> \<not> date_lt today s)"
      by simp
  qed
  from f l s' n show ?thesis by blast
qed

text \<open>
  C7. In such a collection, the list with \<open>include_future\<close> true and \<open>include_expired\<close>
  false selects exactly the documents whose end date is on or after today, whatever
  their start date is; the responses returned are exactly theirs, and none has an end
  date strictly before today.
\<close>

theorem future_list_is_unexpired:
  assumes "valid_date today" and "\<forall>d\<in>set coll. well_formed d"
  shows "find_docs coll (list_query today False True) = filter (unexpired_on today) coll \<and>
         (\<exists>rs. list_announcements forms today coll False True = Inr rs \<and>
            set rs = {r. \<exists>d\<in>set coll. unexpired_on today d \<and> doc_to_response forms today d = Inr r} \<and>
            (\<forall>r\<in>set rs. \<not> date_lt (r_end_date r) today))"
proof -
  have m: "\<forall>d\<in>set coll. matches (list_query today False True) d = unexpired_on today d"
    using assms by (simp add: matches_future)
  have rd: "\<forall>d\<in>set coll. readable d"
    using assms(2) by (simp add: well_formed_readable)
  have f: "find_docs coll (list_query today False True) = filter (unexpired_on today) coll"
    unfolding find_docs_def using m by (simp cong: filter_cong)
  from list_announcements_readable [OF rd, where forms = forms and today = today
      and include_expired = False and include_future = True]
  obtain rs where
    l: "list_announcements forms today coll False True = Inr rs"
    and s: "set rs = {r. \<exists>d\<in>set coll. matches (list_query today False True) d \<and>
                 doc_to_response forms today d = Inr r}"
    by blast
  have s': "set rs = {r. \<exists>d\<in>set coll. unexpired_on today d \<and> doc_to_response forms today d = Inr r}"
    using s m by auto
  have n: "\<forall>r\<in>set rs. \<not> date_lt (r_end_date r) today"
  proof
    fix r assume "r \<in> set rs"
    with s' obtain d where d: "d \<in> set coll" "unexpired_on today d"
      "doc_to_response forms today d = Inr r"
      by auto
    from assms(2) d(1) have "well_formed d" by simp
    note rr = response_dates [OF this d(3)]
    from d(2) obtain e where e: "stored_end d = Some e" "date_le today e"
      by (auto simp: unexpired_on_def split: option.splits)
    show "\<not> date_lt (r_end_date r) today"
      using rr(2) e by (simp add: date_lt_iff_not_le)
  qed
  from f l s' n show ?thesis by blast
qed

text \<open>
  C6. In a collection whose documents can all be converted to a response, the list with
  \<open>include_expired\<close> true selects every document, whatever its dates and whatever
  \<open>include_future\<close> is: it returns one response for each stored document, and every
  response of the list with both flags false is among them.
\<close>

theorem expired_list_is_everything:
  assumes "\<forall>d\<in>set coll. readable d"
  shows "find_docs coll (list_query today True include_future) = coll \<and>
         (\<exists>rs. list_announcements forms today coll True include_future = Inr rs \<and>
            length rs = length coll \<and>
            set rs = {r. \<exists>d\<in>set coll. doc_to_response forms today d = Inr r} \<and>
            (\<exists>rs0. list_announcements forms today coll False False = Inr rs0 \<and>
                   set rs0 \<subseteq> set rs))"
proof -
  have f: "find_docs coll (list_query today True include_future) = coll"
    by (simp add: find_docs_def matches_expired)
  from list_announcements_readable [OF assms, where forms = forms and today = today
      and include_expired = True and include_future = include_future]
  obtain rs where
    l: "list_announcements forms today coll True include_future = Inr rs"
    and n: "length rs = length (find_docs coll (list_query today True include_future))"
    and s: "set rs = {r. \<exists>d\<in>set coll. matches (list_query today True include_future) d \<and>
                 doc_to_response forms today d = Inr r}"
    by blast
  have s': "set rs = {r. \<exists>d\<in>set coll. doc_to_response forms today d = Inr r}"
    using s by (simp add: matches_expired)
  from list_announcements_readable [OF assms, where forms = forms and today = today
      and include_expired = False and include_future = False]
  obtain rs0 where
    l0: "list_announcements forms today coll False False = Inr rs0"
    and s0: "set rs0 = {r. \<exists>d\<in>set coll. matches (list_query today False False) d \<and>
                 doc_to_response forms today d = Inr r}"
    by blast
  have "set rs0 \<subseteq> set rs"
    using s0 s' by auto
  with f l n s' l0 show ?thesis by auto
qed


lemma ex_today_valid: "valid_date ex_today"
  by (simp add: ex_today_def valid_date_def days_in_month_def)

lemma ex_stored_dates:
  "stored_end ex_expired = Some \<lparr>year = 2026, month = 10, day = 31\<rparr>"
  "stored_start ex_expired = None"
  "stored_end ex_current = Some \<lparr>year = 2026, month = 12, day = 1\<rparr>"
  "stored_start ex_current = Some \<lparr>year = 2026, month = 10, day = 1\<rparr>"
  "stored_end ex_future = Some \<lparr>year = 2026, month = 12, day = 24\<rparr>"
  "stored_start ex_future = Some \<lparr>year = 2026, month = 12, day = 1\<rparr>"
  by (simp_all add: stored_end_def stored_start_def ex_expired_def ex_current_def ex_future_def
      iso_date_def digit_val_def valid_date_def days_in_month_def is_leap_def)

lemma ex_coll_well_formed: "\<forall>d\<in>set ex_coll. well_formed d"
  by (simp add: ex_coll_def well_formed_def ex_stored_dates)
     (simp add: ex_expired_def ex_current_def ex_future_def)

theorem default_list_is_current_witness:
  "valid_date ex_today \<and> list_all well_formed ex_coll \<and>
   find_docs ex_coll (list_query ex_today False False) = [ex_current] \<and>
   (\<exists>rs. list_announcements iso_only ex_today ex_coll False False = Inr rs \<and>
      (\<forall>r\<in>set rs. \<not> date_lt (r_end_date r) ex_today \<and>
                   (\<forall>s. r_start_date r = Some s \<longrightarrow> \<not> date_lt ex_today s)))"
proof -
  have c: "filter (current_on ex_today) ex_coll = [ex_current]"
    by (simp add: ex_coll_def current_on_def unexpired_on_def ex_stored_dates date_le_def
        ex_today_def)
  from default_list_is_current [OF ex_today_valid ex_coll_well_formed, where forms = iso_only]
  show ?thesis using ex_today_valid ex_coll_well_formed c by (auto simp: list_all_iff)
qed

theorem future_list_is_unexpired_witness:
  "valid_date ex_today \<and> list_all well_formed ex_coll \<and>
   find_docs ex_coll (list_query ex_today False True) = [ex_current, ex_future] \<and>
   (\<exists>rs. list_announcements iso_only ex_today ex_coll False True = Inr rs \<and>
      (\<forall>r\<in>set rs. \<not> date_lt (r_end_date r) ex_today))"
proof -
  have c: "filter (unexpired_on ex_today) ex_coll = [ex_current, ex_future]"
    by (simp add: ex_coll_def unexpired_on_def ex_stored_dates date_le_def ex_today_def)
  from future_list_is_unexpired [OF ex_today_valid ex_coll_well_formed, where forms = iso_only]
  show ?thesis using ex_today_valid ex_coll_well_formed c by (auto simp: list_all_iff)
qed

theorem expired_list_is_everything_witness:
  "list_all readable ex_coll \<and>
   find_docs ex_coll (list_query ex_today True False) = ex_coll \<and>
   (\<exists>rs. list_announcements iso_only ex_today ex_coll True False = Inr rs \<and> length rs = 3 \<and>
      (\<exists>rs0. list_announcements iso_only ex_today ex_coll False False = Inr rs0 \<and> set rs0 \<subseteq> set rs))"
proof -
  have r: "\<forall>d\<in>set ex_coll. readable d"
    using ex_coll_well_formed by (simp add: well_formed_readable)
  have n: "length ex_coll = 3"
    by (simp add: ex_coll_def)
  from expired_list_is_everything [OF r, where forms = iso_only and today = ex_today
      and include_future = False]
  show ?thesis using r n by (auto simp: list_all_iff)
qed

end
